theory Spec2Isabelle
  imports
    Complex_Main
    "HOL-Library.List_Lexorder"
    "HOL-Library.Product_Lexorder"
    "HOL-Library.Multiset"
    "HOL-Library.Sublist"
begin

section \<open>Values of the program\<close>

text \<open>
  A Python \<open>str\<close> is a sequence of Unicode code points; the glyphs of the trend and the
  length of \<open>trend_last5\<close> are counted in code points, so a string is a list of them.
  The order of lists of \<open>HOL-Library.List_Lexorder\<close> is Python's order on \<open>str\<close>.
\<close>

type_synonym pystr = "nat list"

definition str :: "string \<Rightarrow> pystr" where
  "str cs = map of_char cs"

text \<open>The exceptions that end a run: every raise of the source is an \<open>Inl\<close>.\<close>

datatype error =
  TypeError | ValueError | AttributeError | OverflowError | FileNotFoundError | SystemExit

definition and_then :: "error + 'a \<Rightarrow> ('a \<Rightarrow> error + 'b) \<Rightarrow> error + 'b" where
  "and_then m f = (case m of Inl e \<Rightarrow> Inl e | Inr x \<Rightarrow> f x)"

text \<open>A list comprehension whose body can raise stops at the first element that does.\<close>

fun traverse :: "('a \<Rightarrow> error + 'b) \<Rightarrow> 'a list \<Rightarrow> error + 'b list" where
  "traverse f [] = Inr []"
| "traverse f (x # xs) =
     and_then (f x) (\<lambda>y. and_then (traverse f xs) (\<lambda>ys. Inr (y # ys)))"

text \<open>
  What \<open>json.loads\<close> returns. A float is the rational it denotes; \<open>NaN\<close> and the two
  infinities, which \<open>json.loads\<close> accepts, are \<open>JNonFinite\<close>. An object is the list of
  its items; \<open>dict.get\<close> is the lookup \<open>dict_get\<close>.
\<close>

datatype json =
  JNull | JBool bool | JInt int | JFloat rat | JNonFinite | JStr pystr
  | JArr "json list" | JObj "(pystr \<times> json) list"

fun truthy :: "json \<Rightarrow> bool" where
  "truthy JNull = False"
| "truthy (JBool b) = b"
| "truthy (JInt n) = (n \<noteq> 0)"
| "truthy (JFloat q) = (q \<noteq> 0)"
| "truthy JNonFinite = True"
| "truthy (JStr s) = (s \<noteq> [])"
| "truthy (JArr xs) = (xs \<noteq> [])"
| "truthy (JObj kvs) = (kvs \<noteq> [])"

text \<open>
  A \<open>datetime\<close> is offset-naive or offset-aware, with its position on the time line:
  for a naive one the distance from \<open>datetime.min\<close>, for an aware one the UTC instant.
  Python orders two naive or two aware values by that position; \<open>==\<close> between a naive and
  an aware value is \<open>False\<close> and \<open><\<close> between them raises \<open>TypeError\<close>.
\<close>

datatype datetime = Naive nat | Aware int

definition datetime_min :: datetime where
  "datetime_min = Naive 0"

fun same_kind :: "datetime \<Rightarrow> datetime \<Rightarrow> bool" where
  "same_kind (Naive a) (Naive b) = True"
| "same_kind (Aware a) (Aware b) = True"
| "same_kind (Naive a) (Aware b) = False"
| "same_kind (Aware a) (Naive b) = False"

fun instant :: "datetime \<Rightarrow> int" where
  "instant (Naive n) = int n"
| "instant (Aware i) = i"

text \<open>
  The library functions the scripts call and the repository does not define are
  parameters: \<open>datetime.fromisoformat\<close> (\<open>None\<close> when it raises), \<open>int\<close> on a \<open>str\<close>
  (\<open>None\<close> for \<open>ValueError\<close>), and the floating-point test of rule R4 (lines 135 to 140:
  \<open>statistics.median\<close>, \<open>mean\<close>, \<open>pstdev\<close>, two float divisions and two float
  comparisons), which raises \<open>OverflowError\<close> on integers beyond the range of a double.
\<close>

record lib =
  fromisoformat :: "pystr \<Rightarrow> datetime option"
  int_of_str :: "pystr \<Rightarrow> int option"
  duration_unstable :: "int list \<Rightarrow> error + bool"

text \<open>
  A row is the dict with the nine keys \<open>HEADERS\<close>. Read back from a ledger that
  \<open>write_full_csv\<close> wrote, every cell is a \<open>str\<close>; \<open>to_row\<close> passes \<open>run_at\<close>, \<open>run_id\<close>
  and \<open>status\<close> on as it found them in the JSON, so these three cells hold any JSON
  value.
\<close>

record row =
  run_at :: json
  run_id :: json
  title :: pystr
  status :: json
  retries :: pystr
  duration_ms :: pystr
  trend_last5 :: pystr
  is_flaky :: pystr
  reasons :: pystr

section \<open>The scoring engine: \<open>scripts/flaky_from_testomat.py\<close>\<close>

definition pass_sym :: pystr where
  "pass_sym = [9989]"

definition fail_sym :: pystr where
  "fail_sym = [10060]"

definition skip_sym :: pystr where
  "skip_sym = [9197]"

text \<open>
  \<open>str.lower\<close>, given on the ASCII letters. The source only compares the result with
  \<open>"passed"\<close> and \<open>"failed"\<close>, and no code point outside ASCII lower-cases to a letter of
  these words alone (U+0130 gives \<open>i\<close> followed by U+0307), so leaving the other code
  points alone decides both comparisons as Python does.
\<close>

definition lower :: "pystr \<Rightarrow> pystr" where
  "lower s = map (\<lambda>c. if 65 \<le> c \<and> c \<le> 90 then c + 32 else c) s"

definition status_symbol :: "json \<Rightarrow> error + pystr" where
  "status_symbol st =
     (case (if truthy st then st else JStr []) of
        JStr s \<Rightarrow>
          Inr (if lower s = str ''passed'' then pass_sym
               else if lower s = str ''failed'' then fail_sym
               else skip_sym)
      | _ \<Rightarrow> Inl AttributeError)"

text \<open>\<open>s.replace("Z", "+00:00")\<close> and \<open>parse_dt\<close>, whose \<open>except Exception\<close> also
  catches the \<open>AttributeError\<close> of a cell that is not a \<open>str\<close>.\<close>

definition replace_Z :: "pystr \<Rightarrow> pystr" where
  "replace_Z s = concat (map (\<lambda>c. if c = 90 then str ''+00:00'' else [c]) s)"

definition parse_dt :: "lib \<Rightarrow> json \<Rightarrow> datetime" where
  "parse_dt L v =
     (case v of
        JStr s \<Rightarrow> (case fromisoformat L (replace_Z s) of Some d \<Rightarrow> d | None \<Rightarrow> datetime_min)
      | _ \<Rightarrow> datetime_min)"

text \<open>
  \<open>list.sort\<close> is stable and compares keys with \<open><\<close> only. A sort that never compared a
  naive with an aware key of the same title could not tell which of the two goes first,
  so when such a pair is in the list the comparison is made and \<open>TypeError\<close> is raised;
  otherwise the keys are ordered by title, then by position on the time line. The tuple
  comparison of line 106 looks at the second component only when the titles are equal.
\<close>

definition sort_key1 :: "lib \<Rightarrow> row \<Rightarrow> pystr \<times> int" where
  "sort_key1 L r = (title r, instant (parse_dt L (run_at r)))"

definition sort_key2 :: "lib \<Rightarrow> row \<Rightarrow> int" where
  "sort_key2 L r = instant (parse_dt L (run_at r))"

definition sort_by_title_time :: "lib \<Rightarrow> row list \<Rightarrow> error + row list" where
  "sort_by_title_time L rows =
     (if \<forall>a \<in> set rows. \<forall>b \<in> set rows.
           title a = title b \<longrightarrow> same_kind (parse_dt L (run_at a)) (parse_dt L (run_at b))
      then Inr (sort_key (sort_key1 L) rows)
      else Inl TypeError)"

definition sort_by_time :: "lib \<Rightarrow> row list \<Rightarrow> error + row list" where
  "sort_by_time L rows =
     (if \<forall>a \<in> set rows. \<forall>b \<in> set rows.
           same_kind (parse_dt L (run_at a)) (parse_dt L (run_at b))
      then Inr (sort_key (sort_key2 L) rows)
      else Inl TypeError)"

text \<open>\<open>xs[-n:]\<close> for a positive \<open>n\<close>: the last \<open>n\<close> elements, or all of a shorter list.\<close>

definition last_n :: "nat \<Rightarrow> 'a list \<Rightarrow> 'a list" where
  "last_n n xs = drop (length xs - n) xs"

text \<open>Lines 112 to 114: the glyphs of the whole history, its last four, the current
  one, and the last five of those.\<close>

definition trend_syms :: "row list \<Rightarrow> row \<Rightarrow> error + pystr list" where
  "trend_syms history row =
     and_then (traverse status_symbol (map status history)) (\<lambda>all_syms.
     and_then (status_symbol (status row)) (\<lambda>cur_sym.
       Inr (last_n 5 (last_n 4 all_syms @ [cur_sym]))))"

definition int_cell :: "lib \<Rightarrow> pystr \<Rightarrow> error + int" where
  "int_cell L s = (case int_of_str L s of None \<Rightarrow> Inl ValueError | Some n \<Rightarrow> Inr n)"

text \<open>Lines 118 to 121: an empty cell is an unknown duration.\<close>

definition dur_list :: "lib \<Rightarrow> row list \<Rightarrow> row \<Rightarrow> error + int list" where
  "dur_list L history row =
     and_then (if duration_ms row \<noteq> [] then and_then (int_cell L (duration_ms row)) (\<lambda>d. Inr [d])
               else Inr []) (\<lambda>cur_dur.
     and_then (traverse (int_cell L)
                (filter (\<lambda>d. d \<noteq> []) (map duration_ms (last_n 4 history)))) (\<lambda>ds.
       Inr (ds @ cur_dur)))"

definition r1_reason :: pystr where
  "r1_reason = str ''>1 fail in last5''"

definition r3_reason :: pystr where
  "r3_reason = str ''>1 retry to pass''"

definition r4_reason :: pystr where
  "r4_reason = str ''duration instability''"

definition r1_fires :: "pystr list \<Rightarrow> bool" where
  "r1_fires syms = (2 \<le> count_list syms fail_sym)"

text \<open>Lines 129 and 130: \<open>int(row.get("retries") or 0)\<close>, then the condition of R3.\<close>

definition retries_int :: "lib \<Rightarrow> row \<Rightarrow> error + int" where
  "retries_int L row = (if retries row \<noteq> [] then int_cell L (retries row) else Inr 0)"

definition r3_fires :: "lib \<Rightarrow> row \<Rightarrow> error + bool" where
  "r3_fires L row =
     and_then (retries_int L row) (\<lambda>n.
       case status row of
         JStr s \<Rightarrow> Inr (lower s = str ''passed'' \<and> 1 < n)
       | _ \<Rightarrow> Inl AttributeError)"

text \<open>Line 134 guards the floating-point test of lines 135 to 140.\<close>

definition r4_fires :: "lib \<Rightarrow> int list \<Rightarrow> error + bool" where
  "r4_fires L ds = (if 3 \<le> length ds then duration_unstable L ds else Inr False)"

text \<open>Lines 123 to 142: the glyphs, the score and the list of reasons of one record.\<close>

definition rules :: "lib \<Rightarrow> row list \<Rightarrow> row \<Rightarrow> error + (pystr list \<times> nat \<times> pystr list)" where
  "rules L history row =
     and_then (trend_syms history row) (\<lambda>syms.
     and_then (dur_list L history row) (\<lambda>ds.
     and_then (r3_fires L row) (\<lambda>r3.
     and_then (r4_fires L ds) (\<lambda>r4.
       Inr (syms,
            (if r1_fires syms then 40 else 0) + (if r3 then 20 else 0) + (if r4 then 20 else 0),
            (if r1_fires syms then [r1_reason] else []) @ (if r3 then [r3_reason] else [])
              @ (if r4 then [r4_reason] else []))))))"

fun join :: "pystr \<Rightarrow> pystr list \<Rightarrow> pystr" where
  "join sep [] = []"
| "join sep [x] = x"
| "join sep (x # y # ys) = x @ sep @ join sep (y # ys)"

definition verdict :: "nat \<Rightarrow> pystr list \<Rightarrow> pystr" where
  "verdict score rs = (if 40 \<le> score \<or> r1_reason \<in> set rs then str ''yes'' else str ''no'')"

text \<open>The body of the loop of line 108 for one row, given the history of its title.\<close>

definition score_row :: "lib \<Rightarrow> row list \<Rightarrow> row \<Rightarrow> error + row" where
  "score_row L history row =
     and_then (rules L history row) (\<lambda>(syms, score, rs).
       Inr (row\<lparr>trend_last5 := concat syms, is_flaky := verdict score rs,
                reasons := join (str ''; '') rs\<rparr>))"

text \<open>The loop, with the dict \<open>grouped\<close> as a function from titles to histories
  (\<open>setdefault\<close> starts a title at the empty list).\<close>

fun score_all :: "lib \<Rightarrow> (pystr \<Rightarrow> row list) \<Rightarrow> row list \<Rightarrow> error + row list" where
  "score_all L grouped [] = Inr []"
| "score_all L grouped (row # rest) =
     and_then (score_row L (grouped (title row)) row) (\<lambda>row'.
     and_then (score_all L (grouped(title row := grouped (title row) @ [row'])) rest) (\<lambda>out.
       Inr (row' # out)))"

definition compute_trend_and_flaky :: "lib \<Rightarrow> row list \<Rightarrow> error + row list" where
  "compute_trend_and_flaky L all_rows =
     and_then (sort_by_title_time L all_rows) (\<lambda>sorted_rows.
     and_then (score_all L (\<lambda>t. []) sorted_rows) (\<lambda>scored.
       sort_by_time L scored))"

text \<open>The six cells that the engine reads and never assigns.\<close>

definition source_fields :: "row \<Rightarrow> json \<times> json \<times> pystr \<times> json \<times> pystr \<times> pystr" where
  "source_fields r = (run_at r, run_id r, title r, status r, retries r, duration_ms r)"

text \<open>The records of one title, in the order of the list: of the list sorted at line
  106, the title's chronological order.\<close>

definition title_group :: "pystr \<Rightarrow> row list \<Rightarrow> row list" where
  "title_group t rows = filter (\<lambda>r. title r = t) rows"

section \<open>From the JSON export to rows\<close>

text \<open>\<open>d.get(k)\<close> on the items of a dict, and \<open>a or b\<close>.\<close>

definition dict_get :: "(pystr \<times> json) list \<Rightarrow> string \<Rightarrow> json" where
  "dict_get kvs k = (case map_of kvs (str k) of None \<Rightarrow> JNull | Some v \<Rightarrow> v)"

definition py_or :: "json \<Rightarrow> json \<Rightarrow> json" where
  "py_or a b = (if truthy a then a else b)"

text \<open>\<open>str.strip()\<close> removes the code points for which \<open>str.isspace\<close> holds.\<close>

definition is_space :: "nat \<Rightarrow> bool" where
  "is_space c \<longleftrightarrow>
     (9 \<le> c \<and> c \<le> 13) \<or> (28 \<le> c \<and> c \<le> 32) \<or> c = 133 \<or> c = 160 \<or> c = 5760
     \<or> (8192 \<le> c \<and> c \<le> 8202) \<or> c = 8232 \<or> c = 8233 \<or> c = 8239 \<or> c = 8287 \<or> c = 12288"

definition strip :: "pystr \<Rightarrow> pystr" where
  "strip s = rev (dropWhile is_space (rev (dropWhile is_space s)))"

text \<open>\<open>str(n)\<close> for an \<open>int\<close>.\<close>

fun digits :: "nat \<Rightarrow> pystr" where
  "digits n = (if n < 10 then [48 + n] else digits (n div 10) @ [48 + n mod 10])"

definition str_of_int :: "int \<Rightarrow> pystr" where
  "str_of_int i = (if i < 0 then 45 # digits (nat (- i)) else digits (nat i))"

text \<open>\<open>int(x)\<close> inside \<open>try\<close>: \<open>None\<close> when it raises. A float is truncated towards
  zero; \<open>NaN\<close>, an infinity, a list, a dict and \<open>None\<close> raise.\<close>

fun py_int :: "lib \<Rightarrow> json \<Rightarrow> int option" where
  "py_int L JNull = None"
| "py_int L (JBool b) = Some (if b then 1 else 0)"
| "py_int L (JInt n) = Some n"
| "py_int L (JFloat q) = Some (if 0 \<le> q then \<lfloor>q\<rfloor> else \<lceil>q\<rceil>)"
| "py_int L JNonFinite = None"
| "py_int L (JStr s) = int_of_str L s"
| "py_int L (JArr xs) = None"
| "py_int L (JObj kvs) = None"

text \<open>Lines 70 to 96. \<open>item.get\<close> and \<open>attr.get\<close> raise \<open>AttributeError\<close> on a value
  that is not a dict, \<open>.strip()\<close> on a title that is not a \<open>str\<close>.\<close>

definition to_row :: "lib \<Rightarrow> json \<Rightarrow> error + row" where
  "to_row L item =
     (case item of
        JObj members \<Rightarrow>
          (case (case map_of members (str ''attributes'') of None \<Rightarrow> JObj [] | Some a \<Rightarrow> a) of
             JObj attr \<Rightarrow>
               (let run_at' = py_or (dict_get attr ''created-at'')
                                (py_or (dict_get attr ''created_at'')
                                  (py_or (dict_get attr ''run_at'') (JStr [])));
                    run_id' = py_or (dict_get attr ''run-id'')
                                (py_or (dict_get attr ''run_id'') (JStr []))
                in case py_or (dict_get attr ''title'') (JStr []) of
                     JStr t \<Rightarrow>
                       (let status' = py_or (dict_get attr ''status'') (JStr []);
                            retries' = (case py_int L (py_or (dict_get attr ''retries'') (JInt 0)) of
                                          None \<Rightarrow> 0 | Some n \<Rightarrow> n);
                            duration = py_or (dict_get attr ''run-time'')
                                         (py_or (dict_get attr ''duration_ms'')
                                           (py_or (dict_get attr ''duration'') (JStr [])));
                            duration' = (if duration = JStr [] \<or> duration = JNull then None
                                         else py_int L duration)
                        in Inr \<lparr>run_at = run_at', run_id = py_or run_id' run_at',
                                title = strip t, status = status',
                                retries = str_of_int retries',
                                duration_ms = (case duration' of None \<Rightarrow> [] | Some d \<Rightarrow> str_of_int d),
                                trend_last5 = [], is_flaky = [], reasons = []\<rparr>)
                   | _ \<Rightarrow> Inl AttributeError)
           | _ \<Rightarrow> Inl AttributeError)
      | _ \<Rightarrow> Inl AttributeError)"

definition wrap_attributes :: "json \<Rightarrow> json" where
  "wrap_attributes t = JObj [(str ''attributes'', t)]"

definition parse_items :: "json \<Rightarrow> error + json list" where
  "parse_items doc =
     (case doc of
        JObj members \<Rightarrow>
          (case map_of members (str ''data'') of
             Some (JArr items) \<Rightarrow> Inr items
           | _ \<Rightarrow>
             (case map_of members (str ''tests'') of
                Some (JArr tests) \<Rightarrow> Inr (map wrap_attributes tests)
              | _ \<Rightarrow> Inl SystemExit))
      | JArr items \<Rightarrow> Inr (map wrap_attributes items)
      | _ \<Rightarrow> Inl SystemExit)"

text \<open>Line 163: \<open>it.get("attributes")\<close> raises on an item that is not a dict.\<close>

definition has_attributes :: "json \<Rightarrow> error + bool" where
  "has_attributes it =
     (case it of JObj members \<Rightarrow> Inr (truthy (dict_get members ''attributes''))
      | _ \<Rightarrow> Inl AttributeError)"

fun new_rows :: "lib \<Rightarrow> json list \<Rightarrow> error + row list" where
  "new_rows L [] = Inr []"
| "new_rows L (it # items) =
     and_then (has_attributes it) (\<lambda>keep.
       if keep
       then and_then (to_row L it) (\<lambda>r. and_then (new_rows L items) (\<lambda>rs. Inr (r # rs)))
       else new_rows L items)"

section \<open>The command: files in, ledger out\<close>

text \<open>
  The file system maps a path to the bytes of the file, \<open>None\<close> where \<open>open\<close> fails.
  Decoding, \<open>json.loads\<close> and the \<open>csv\<close> module are parameters. \<open>csv_write\<close> gives the
  bytes that reach the file and the exception that interrupted the writing, if any.
\<close>

type_synonym files = "pystr \<Rightarrow> string option"

record io =
  utf8_decode :: "string \<Rightarrow> pystr option"
  json_loads :: "pystr \<Rightarrow> json option"
  csv_read :: "string \<Rightarrow> error + row list"
  csv_write :: "row list \<Rightarrow> string \<times> error option"

datatype stage = Usage | LoadJson | ParseItems | ToRow | NoItems | ReadCsv | Compute | WriteCsv

definition load_json :: "io \<Rightarrow> files \<Rightarrow> pystr \<Rightarrow> error + json" where
  "load_json sys fs path =
     (case fs path of
        None \<Rightarrow> Inl FileNotFoundError
      | Some data \<Rightarrow>
          (case utf8_decode sys data of
             None \<Rightarrow> Inl SystemExit
           | Some text \<Rightarrow>
               (case json_loads sys text of None \<Rightarrow> Inl SystemExit | Some doc \<Rightarrow> Inr doc)))"

definition read_existing_csv :: "io \<Rightarrow> files \<Rightarrow> pystr \<Rightarrow> error + row list" where
  "read_existing_csv sys fs path =
     (case fs path of None \<Rightarrow> Inr [] | Some data \<Rightarrow> csv_read sys data)"

text \<open>\<open>os.makedirs(os.path.dirname(path))\<close> raises on the empty directory name of a path
  without \<open>/\<close>; after it, \<open>open(path, "w")\<close> replaces the file.\<close>

definition write_full_csv :: "io \<Rightarrow> files \<Rightarrow> pystr \<Rightarrow> row list \<Rightarrow> error option \<times> files" where
  "write_full_csv sys fs path rows =
     (if 47 \<notin> set path then (Some FileNotFoundError, fs)
      else (snd (csv_write sys rows), fs(path := Some (fst (csv_write sys rows)))))"

text \<open>\<open>main\<close> returns the stage and the exception that ended the run, or \<open>None\<close> after
  a complete run, with the file system it leaves.\<close>

definition main :: "io \<Rightarrow> lib \<Rightarrow> pystr list \<Rightarrow> files \<Rightarrow> (stage \<times> error) option \<times> files" where
  "main sys L argv fs =
     (case argv of
        [prog, in_json, out_csv] \<Rightarrow>
          (case load_json sys fs in_json of
             Inl e \<Rightarrow> (Some (LoadJson, e), fs)
           | Inr doc \<Rightarrow>
          (case parse_items doc of
             Inl e \<Rightarrow> (Some (ParseItems, e), fs)
           | Inr items \<Rightarrow>
          (case new_rows L items of
             Inl e \<Rightarrow> (Some (ToRow, e), fs)
           | Inr rows \<Rightarrow>
          if rows = [] then (Some (NoItems, SystemExit), fs)
          else
          (case read_existing_csv sys fs out_csv of
             Inl e \<Rightarrow> (Some (ReadCsv, e), fs)
           | Inr existing \<Rightarrow>
          (case compute_trend_and_flaky L (existing @ rows) of
             Inl e \<Rightarrow> (Some (Compute, e), fs)
           | Inr merged \<Rightarrow>
          (case write_full_csv sys fs out_csv merged of
             (Some e, fs') \<Rightarrow> (Some (WriteCsv, e), fs')
           | (None, fs') \<Rightarrow> (None, fs')))))))
      | _ \<Rightarrow> (Some (Usage, SystemExit), fs))"

section \<open>Sample values of the library parameters\<close>

text \<open>
  The examples below run the engine on concrete rows and need values for the library
  parameters. \<open>dec_int\<close> is \<open>int\<close> on the strings of ASCII digits with an optional minus
  sign; \<open>sample_fromisoformat\<close> lists the timestamps the examples use, naive ones by
  their day number and one aware timestamp; \<open>exact_unstable\<close> is the test of lines 135
  to 140 in exact rational arithmetic (\<open>stdev/mean \<ge> 0.6\<close> as \<open>variance \<ge> 0.36 mean\<^sup>2\<close>
  for a positive mean), which the doubles of the source follow wherever no quotient is
  within rounding distance of its threshold.
\<close>

fun dec_digits :: "pystr \<Rightarrow> nat \<Rightarrow> nat option" where
  "dec_digits [] acc = Some acc"
| "dec_digits (c # cs) acc =
     (if 48 \<le> c \<and> c \<le> 57 then dec_digits cs (10 * acc + (c - 48)) else None)"

definition dec_int :: "pystr \<Rightarrow> int option" where
  "dec_int s =
     (case s of
        [] \<Rightarrow> None
      | c # cs \<Rightarrow>
          if c = 45 then (if cs = [] then None else map_option (\<lambda>n. - int n) (dec_digits cs 0))
          else map_option int (dec_digits s 0))"

definition sample_fromisoformat :: "pystr \<Rightarrow> datetime option" where
  "sample_fromisoformat =
     map_of [(str ''2024-01-01T00:00:00'', Naive 738886),
             (str ''2024-01-02T00:00:00'', Naive 738887),
             (str ''2024-01-03T00:00:00'', Naive 738888),
             (str ''2024-01-04T00:00:00'', Naive 738889),
             (str ''2024-01-05T00:00:00'', Naive 738890),
             (str ''2024-01-06T00:00:00'', Naive 738891),
             (str ''2024-01-01T00:00:00+00:00'', Aware 738886)]"

definition median_exact :: "int list \<Rightarrow> rat" where
  "median_exact ds =
     (let data = sort ds; n = length data
      in if odd n then of_int (data ! (n div 2))
         else (of_int (data ! (n div 2 - 1)) + of_int (data ! (n div 2))) / 2)"

definition exact_unstable :: "int list \<Rightarrow> error + bool" where
  "exact_unstable ds =
     (let med = median_exact ds;
          mean = (of_int (sum_list ds) :: rat) / of_nat (length ds);
          var = sum_list (map (\<lambda>d. (of_int d - mean)\<^sup>2) ds) / of_nat (length ds);
          spike = (if med \<noteq> 0 then of_int (Max (set ds)) / med else (0 :: rat))
      in Inr (5 \<le> spike \<or> (0 < mean \<and> 9 / 25 * mean\<^sup>2 \<le> var)))"

definition sample_lib :: lib where
  "sample_lib = \<lparr>fromisoformat = sample_fromisoformat, int_of_str = dec_int,
                  duration_unstable = exact_unstable\<rparr>"

text \<open>A ledger row as \<open>csv.DictReader\<close> gives it, before the engine fills the last
  three cells.\<close>

definition ledger_row :: "string \<Rightarrow> string \<Rightarrow> string \<Rightarrow> string \<Rightarrow> string \<Rightarrow> row" where
  "ledger_row ts t st re du =
     \<lparr>run_at = JStr (str ts), run_id = JStr (str ts), title = str t, status = JStr (str st),
      retries = str re, duration_ms = str du, trend_last5 = [], is_flaky = [], reasons = []\<rparr>"

text \<open>The scenarios of the specification's section 8, as ledger rows.\<close>

definition r1_scenario :: "row list" where
  "r1_scenario =
     [ledger_row ''2024-01-01T00:00:00'' ''T'' ''failed'' ''0'' '''',
      ledger_row ''2024-01-02T00:00:00'' ''T'' ''failed'' ''0'' '''',
      ledger_row ''2024-01-03T00:00:00'' ''T'' ''passed'' ''0'' '''',
      ledger_row ''2024-01-04T00:00:00'' ''T'' ''passed'' ''0'' '''',
      ledger_row ''2024-01-05T00:00:00'' ''T'' ''passed'' ''0'' '''']"

definition r3_scenario :: "row list" where
  "r3_scenario = [ledger_row ''2024-01-01T00:00:00'' ''T'' ''passed'' ''2'' '''']"

definition combined_scenario :: "row list" where
  "combined_scenario =
     [ledger_row ''2024-01-03T00:00:00'' ''T'' ''passed'' ''2'' ''600'',
      ledger_row ''2024-01-01T00:00:00'' ''T'' ''passed'' ''0'' ''100'',
      ledger_row ''2024-01-02T00:00:00'' ''T'' ''passed'' ''0'' ''100'']"

definition two_titles_scenario :: "row list" where
  "two_titles_scenario =
     [ledger_row ''2024-01-02T00:00:00'' ''b'' ''failed'' ''0'' ''7'',
      ledger_row ''2024-01-03T00:00:00'' ''a'' ''Passed'' ''3'' '''',
      ledger_row ''2024-01-01T00:00:00'' ''b'' ''failed'' ''0'' '''',
      ledger_row ''not a date'' ''a'' ''skipped'' '''' ''12'']"

definition six_runs_scenario :: "row list" where
  "six_runs_scenario =
     [ledger_row ''2024-01-01T00:00:00'' ''T'' ''passed'' ''0'' '''',
      ledger_row ''2024-01-02T00:00:00'' ''T'' ''failed'' ''0'' '''',
      ledger_row ''2024-01-03T00:00:00'' ''T'' ''passed'' ''0'' '''',
      ledger_row ''2024-01-04T00:00:00'' ''T'' ''broken'' ''0'' '''',
      ledger_row ''2024-01-05T00:00:00'' ''T'' ''passed'' ''0'' '''',
      ledger_row ''2024-01-06T00:00:00'' ''T'' ''passed'' ''0'' '''']"

text \<open>Two rows of an export in which one item has no timestamp.\<close>

definition mixed_kinds_scenario :: "row list" where
  "mixed_kinds_scenario =
     [ledger_row ''2024-01-01T00:00:00Z'' ''a'' ''passed'' ''0'' '''',
      ledger_row '''' ''b'' ''passed'' ''0'' '''']"

text \<open>An item of the export whose attributes have a status and no title.\<close>

definition untitled_item :: json where
  "untitled_item = JObj [(str ''attributes'', JObj [(str ''status'', JStr (str ''passed''))])]"

text \<open>A history whose three oldest runs have known durations and whose last four have
  none, and a current run of known duration.\<close>

definition old_durations :: "row list" where
  "old_durations =
     [ledger_row ''2024-01-01T00:00:00'' ''T'' ''passed'' ''0'' ''100'',
      ledger_row ''2024-01-01T00:00:00'' ''T'' ''passed'' ''0'' ''100'',
      ledger_row ''2024-01-01T00:00:00'' ''T'' ''passed'' ''0'' ''600'']"

definition recent_unknown :: "row list" where
  "recent_unknown =
     [ledger_row ''2024-01-02T00:00:00'' ''T'' ''passed'' ''0'' '''',
      ledger_row ''2024-01-03T00:00:00'' ''T'' ''passed'' ''0'' '''',
      ledger_row ''2024-01-04T00:00:00'' ''T'' ''passed'' ''0'' '''',
      ledger_row ''2024-01-05T00:00:00'' ''T'' ''passed'' ''0'' '''']"

definition current_run :: row where
  "current_run = ledger_row ''2024-01-06T00:00:00'' ''T'' ''passed'' ''0'' ''100''"

text \<open>A file system and library functions for one run of the command: the export
  \<open>in.json\<close> holds \<open>[]\<close>, the ledger \<open>out/ledger.csv\<close> exists. The run ends before
  it reads or writes the ledger, so the two \<open>csv\<close> functions are never called.\<close>

definition sample_files :: files where
  "sample_files =
     map_of [(str ''in.json'', ''[]''), (str ''out/ledger.csv'', ''run_at,run_id,title'')]"

definition sample_io :: io where
  "sample_io =
     \<lparr>utf8_decode = (\<lambda>data. Some (str data)),
      json_loads = map_of [(str ''[]'', JArr [])],
      csv_read = (\<lambda>data. Inr []),
      csv_write = (\<lambda>rows. ([], None))\<rparr>"

text \<open>What the engine returns on the scenarios.\<close>

definition r1_scored :: "row list" where
  "r1_scored =
     [(ledger_row ''2024-01-01T00:00:00'' ''T'' ''failed'' ''0'' '''')
        \<lparr>trend_last5 := [10060], is_flaky := str ''no'', reasons := []\<rparr>,
      (ledger_row ''2024-01-02T00:00:00'' ''T'' ''failed'' ''0'' '''')
        \<lparr>trend_last5 := [10060, 10060], is_flaky := str ''yes'',
         reasons := str ''>1 fail in last5''\<rparr>,
      (ledger_row ''2024-01-03T00:00:00'' ''T'' ''passed'' ''0'' '''')
        \<lparr>trend_last5 := [10060, 10060, 9989], is_flaky := str ''yes'',
         reasons := str ''>1 fail in last5''\<rparr>,
      (ledger_row ''2024-01-04T00:00:00'' ''T'' ''passed'' ''0'' '''')
        \<lparr>trend_last5 := [10060, 10060, 9989, 9989], is_flaky := str ''yes'',
         reasons := str ''>1 fail in last5''\<rparr>,
      (ledger_row ''2024-01-05T00:00:00'' ''T'' ''passed'' ''0'' '''')
        \<lparr>trend_last5 := [10060, 10060, 9989, 9989, 9989], is_flaky := str ''yes'',
         reasons := str ''>1 fail in last5''\<rparr>]"

definition r3_scored :: "row list" where
  "r3_scored =
     [(ledger_row ''2024-01-01T00:00:00'' ''T'' ''passed'' ''2'' '''')
        \<lparr>trend_last5 := [9989], is_flaky := str ''no'', reasons := str ''>1 retry to pass''\<rparr>]"

definition combined_scored :: "row list" where
  "combined_scored =
     [(ledger_row ''2024-01-01T00:00:00'' ''T'' ''passed'' ''0'' ''100'')
        \<lparr>trend_last5 := [9989], is_flaky := str ''no'', reasons := []\<rparr>,
      (ledger_row ''2024-01-02T00:00:00'' ''T'' ''passed'' ''0'' ''100'')
        \<lparr>trend_last5 := [9989, 9989], is_flaky := str ''no'', reasons := []\<rparr>,
      (ledger_row ''2024-01-03T00:00:00'' ''T'' ''passed'' ''2'' ''600'')
        \<lparr>trend_last5 := [9989, 9989, 9989], is_flaky := str ''yes'',
         reasons := str ''>1 retry to pass; duration instability''\<rparr>]"

definition two_titles_scored :: "row list" where
  "two_titles_scored =
     [(ledger_row ''not a date'' ''a'' ''skipped'' '''' ''12'')
        \<lparr>trend_last5 := [9197], is_flaky := str ''no'', reasons := []\<rparr>,
      (ledger_row ''2024-01-01T00:00:00'' ''b'' ''failed'' ''0'' '''')
        \<lparr>trend_last5 := [10060], is_flaky := str ''no'', reasons := []\<rparr>,
      (ledger_row ''2024-01-02T00:00:00'' ''b'' ''failed'' ''0'' ''7'')
        \<lparr>trend_last5 := [10060, 10060], is_flaky := str ''yes'',
         reasons := str ''>1 fail in last5''\<rparr>,
      (ledger_row ''2024-01-03T00:00:00'' ''a'' ''Passed'' ''3'' '''')
        \<lparr>trend_last5 := [9197, 9989], is_flaky := str ''no'',
         reasons := str ''>1 retry to pass''\<rparr>]"

definition six_runs_scored :: "row list" where
  "six_runs_scored =
     [(ledger_row ''2024-01-01T00:00:00'' ''T'' ''passed'' ''0'' '''')
        \<lparr>trend_last5 := [9989], is_flaky := str ''no'', reasons := []\<rparr>,
      (ledger_row ''2024-01-02T00:00:00'' ''T'' ''failed'' ''0'' '''')
        \<lparr>trend_last5 := [9989, 10060], is_flaky := str ''no'', reasons := []\<rparr>,
      (ledger_row ''2024-01-03T00:00:00'' ''T'' ''passed'' ''0'' '''')
        \<lparr>trend_last5 := [9989, 10060, 9989], is_flaky := str ''no'', reasons := []\<rparr>,
      (ledger_row ''2024-01-04T00:00:00'' ''T'' ''broken'' ''0'' '''')
        \<lparr>trend_last5 := [9989, 10060, 9989, 9197], is_flaky := str ''no'', reasons := []\<rparr>,
      (ledger_row ''2024-01-05T00:00:00'' ''T'' ''passed'' ''0'' '''')
        \<lparr>trend_last5 := [9989, 10060, 9989, 9197, 9989], is_flaky := str ''no'',
         reasons := []\<rparr>,
      (ledger_row ''2024-01-06T00:00:00'' ''T'' ''passed'' ''0'' '''')
        \<lparr>trend_last5 := [10060, 9989, 9197, 9989, 9989], is_flaky := str ''no'',
         reasons := []\<rparr>]"

text \<open>The row that \<open>to_row\<close> makes of \<open>untitled_item\<close>.\<close>

definition untitled_row :: row where
  "untitled_row =
     \<lparr>run_at = JStr [], run_id = JStr [], title = [], status = JStr (str ''passed''),
      retries = str ''0'', duration_ms = [], trend_last5 = [], is_flaky = [], reasons = []\<rparr>"

section \<open>Facts about the scoring loop\<close>

lemma and_then_Inr [simp]: "and_then (Inr x) f = f x"
  by (simp add: and_then_def)

lemma and_then_Inl [simp]: "and_then (Inl e) f = Inl e"
  by (simp add: and_then_def)

lemma and_then_eq_Inr: "and_then m f = Inr y \<longleftrightarrow> (\<exists>x. m = Inr x \<and> f x = Inr y)"
  by (cases m) simp_all

lemma traverse_length: "traverse f xs = Inr ys \<Longrightarrow> length ys = length xs"
  by (induction xs arbitrary: ys) (auto simp: and_then_eq_Inr)

lemma status_symbol_length: "status_symbol st = Inr s \<Longrightarrow> length s = 1"
  by (auto simp: status_symbol_def pass_sym_def fail_sym_def skip_sym_def split: json.splits if_splits)

lemma last_n_map: "map f (last_n n xs) = last_n n (map f xs)"
  by (simp add: last_n_def drop_map)

lemma length_last_n: "length (last_n n xs) = min n (length xs)"
  by (simp add: last_n_def)

lemma set_last_n: "set (last_n n xs) \<subseteq> set xs"
  by (simp add: last_n_def set_drop_subset)

lemma rules_cong:
  assumes "map status h = map status h'" "map duration_ms h = map duration_ms h'"
    "status r = status r'" "retries r = retries r'" "duration_ms r = duration_ms r'"
  shows "rules L h r = rules L h' r'"
proof -
  have "map duration_ms (last_n 4 h) = map duration_ms (last_n 4 h')"
    by (simp add: last_n_map assms)
  then show ?thesis
    using assms by (simp add: rules_def trend_syms_def dur_list_def r3_fires_def retries_int_def)
qed

lemma score_row_fields:
  assumes "score_row L h r = Inr r'"
  shows "\<exists>syms score rs. rules L h r = Inr (syms, score, rs) \<and>
     r' = r\<lparr>trend_last5 := concat syms, is_flaky := verdict score rs, reasons := join (str ''; '') rs\<rparr>"
  using assms by (auto simp: score_row_def and_then_eq_Inr)

lemma score_row_source: "score_row L h r = Inr r' \<Longrightarrow> source_fields r' = source_fields r"
  by (auto dest!: score_row_fields simp: source_fields_def)

lemma score_row_title: "score_row L h r = Inr r' \<Longrightarrow> title r' = title r"
  by (auto dest!: score_row_fields)

lemma score_row_again:
  assumes "score_row L h r = Inr r'" "map status h' = map status h" "map duration_ms h' = map duration_ms h"
  shows "score_row L h' r' = Inr r'"
proof -
  from assms(1) obtain syms score rs where
    a: "rules L h r = Inr (syms, score, rs)" and
    b: "r' = r\<lparr>trend_last5 := concat syms, is_flaky := verdict score rs, reasons := join (str ''; '') rs\<rparr>"
    using score_row_fields by blast
  have "rules L h' r' = rules L h r"
    by (rule rules_cong) (simp_all add: assms b)
  then show ?thesis
    by (simp add: score_row_def a b)
qed

lemma score_all_grouped_cong:
  "(\<forall>x \<in> set xs. g (title x) = g' (title x)) \<Longrightarrow> score_all L g xs = score_all L g' xs"
proof (induction xs arbitrary: g g')
  case Nil
  then show ?case by simp
next
  case (Cons x xs)
  have h: "g (title x) = g' (title x)" using Cons.prems by simp
  have "score_all L (g(title x := g (title x) @ [r'])) xs
      = score_all L (g'(title x := g' (title x) @ [r'])) xs" for r'
    by (rule Cons.IH) (use Cons.prems h in auto)
  then show ?case by (simp add: h)
qed

lemma score_all_filter:
  "score_all L g xs = Inr ys \<Longrightarrow>
   score_all L g (filter (\<lambda>r. title r = t) xs) = Inr (filter (\<lambda>r. title r = t) ys)"
proof (induction xs arbitrary: g ys)
  case Nil
  then show ?case by simp
next
  case (Cons x xs)
  from Cons.prems obtain r' out where
    r: "score_row L (g (title x)) x = Inr r'" and
    o: "score_all L (g(title x := g (title x) @ [r'])) xs = Inr out" and
    y: "ys = r' # out"
    by (auto simp: and_then_eq_Inr)
  have t: "title r' = title x" using r by (rule score_row_title)
  have ih: "score_all L (g(title x := g (title x) @ [r'])) (filter (\<lambda>r. title r = t) xs)
     = Inr (filter (\<lambda>r. title r = t) out)"
    using o by (rule Cons.IH)
  show ?case
  proof (cases "title x = t")
    case True
    then show ?thesis using r ih t y by simp
  next
    case False
    have "score_all L g (filter (\<lambda>r. title r = t) xs)
        = score_all L (g(title x := g (title x) @ [r'])) (filter (\<lambda>r. title r = t) xs)"
      by (rule score_all_grouped_cong) (use False in auto)
    then show ?thesis using False ih t y by simp
  qed
qed

lemma score_all_take:
  "score_all L g xs = Inr ys \<Longrightarrow> score_all L g (take n xs) = Inr (take n ys)"
proof (induction xs arbitrary: g ys n)
  case Nil
  then show ?case by simp
next
  case (Cons x xs)
  then show ?case
    by (cases n) (auto simp: and_then_eq_Inr)
qed

lemma score_all_source:
  "score_all L g xs = Inr ys \<Longrightarrow> map source_fields ys = map source_fields xs"
  by (induction xs arbitrary: g ys) (auto simp: and_then_eq_Inr score_row_source)

lemma score_all_again:
  "score_all L g xs = Inr ys \<Longrightarrow>
   (\<forall>t. map status (g' t) = map status (g t) \<and> map duration_ms (g' t) = map duration_ms (g t)) \<Longrightarrow>
   score_all L g' ys = Inr ys"
proof (induction xs arbitrary: g g' ys)
  case Nil
  then show ?case by simp
next
  case (Cons x xs)
  from Cons.prems(1) obtain r' out where
    r: "score_row L (g (title x)) x = Inr r'" and
    o: "score_all L (g(title x := g (title x) @ [r'])) xs = Inr out" and
    y: "ys = r' # out"
    by (auto simp: and_then_eq_Inr)
  have t: "title r' = title x" using r by (rule score_row_title)
  have r2: "score_row L (g' (title x)) r' = Inr r'"
    using r Cons.prems(2) by (intro score_row_again) auto
  have "score_all L (g'(title x := g' (title x) @ [r'])) out = Inr out"
    using o by (rule Cons.IH) (use Cons.prems(2) in auto)
  then show ?case using r2 t y by simp
qed

lemma engine_steps:
  "compute_trend_and_flaky L rows = Inr out \<longleftrightarrow>
   (\<exists>s p. sort_by_title_time L rows = Inr s \<and> score_all L (\<lambda>t. []) s = Inr p \<and> sort_by_time L p = Inr out)"
  by (simp add: compute_trend_and_flaky_def and_then_eq_Inr)

lemma sort_by_title_time_Inr:
  "sort_by_title_time L rows = Inr s \<Longrightarrow> s = sort_key (sort_key1 L) rows"
  by (simp add: sort_by_title_time_def split: if_splits)

lemma sort_by_time_Inr:
  "sort_by_time L p = Inr out \<longleftrightarrow>
   (\<forall>a \<in> set p. \<forall>b \<in> set p. same_kind (parse_dt L (run_at a)) (parse_dt L (run_at b)))
   \<and> out = sort_key (sort_key2 L) p"
  by (auto simp: sort_by_time_def)

lemma map_sort_key1_source:
  assumes "map source_fields ys = map source_fields xs"
  shows "map (sort_key1 L) ys = map (sort_key1 L) xs"
proof -
  define k where "k = (\<lambda>(ra :: json, ri :: json, t :: pystr, rest :: json \<times> pystr \<times> pystr).
    (t, instant (parse_dt L ra)))"
  have "sort_key1 L = k \<circ> source_fields"
    by (simp add: fun_eq_iff sort_key1_def source_fields_def k_def)
  then have "map (sort_key1 L) ys = map k (map source_fields ys)"
    and "map (sort_key1 L) xs = map k (map source_fields xs)"
    by (simp_all only: map_map)
  then show ?thesis by (simp only: assms)
qed

lemma key_le_same_title:
  "title a = title b \<Longrightarrow> sort_key1 L a \<le> sort_key1 L b \<Longrightarrow> sort_key2 L a \<le> sort_key2 L b"
  by (simp add: sort_key1_def sort_key2_def less_eq_prod_def)

lemma sorted_same_title:
  "\<forall>r \<in> set xs. title r = t \<Longrightarrow> sorted (map (sort_key1 L) xs) \<Longrightarrow> sorted (map (sort_key2 L) xs)"
proof (induction xs)
  case Nil
  then show ?case by simp
next
  case (Cons x xs)
  have "sort_key2 L x \<le> sort_key2 L y" if "y \<in> set xs" for y
  proof (rule key_le_same_title)
    show "title x = title y" using Cons.prems(1) that by simp
    show "sort_key1 L x \<le> sort_key1 L y" using Cons.prems(2) that by simp
  qed
  then show ?case using Cons by simp
qed

lemma sorted_group:
  assumes "sorted (map (sort_key1 L) xs)"
  shows "sorted (map (sort_key2 L) (filter (\<lambda>r. title r = t) xs))"
proof -
  have "sorted (map (sort_key1 L) (filter (\<lambda>r. title r = t) xs))"
    using assms by (rule sorted_filter)
  then show ?thesis
    by (intro sorted_same_title [where t = t]) auto
qed

lemma group_after_final_sort:
  assumes "sorted (map (sort_key1 L) p)"
  shows "filter (\<lambda>r. title r = t) (sort_key (sort_key2 L) p) = filter (\<lambda>r. title r = t) p"
proof -
  have "filter (\<lambda>r. title r = t) (sort_key (sort_key2 L) p)
      = sort_key (sort_key2 L) (filter (\<lambda>r. title r = t) p)"
    by (rule filter_sort)
  also have "\<dots> = filter (\<lambda>r. title r = t) p"
    using assms by (intro sort_key_id_if_sorted sorted_group)
  finally show ?thesis .
qed

lemma pass_sorted:
  assumes "sort_by_title_time L rows = Inr s" "score_all L g s = Inr p"
  shows "sorted (map (sort_key1 L) p)"
proof -
  have "s = sort_key (sort_key1 L) rows" using assms(1) by (rule sort_by_title_time_Inr)
  then have "sorted (map (sort_key1 L) s)" by simp
  moreover have "map (sort_key1 L) p = map (sort_key1 L) s"
    using assms(2) by (intro map_sort_key1_source score_all_source)
  ultimately show ?thesis by simp
qed

lemma key1_filter:
  "filter (\<lambda>x. sort_key1 L k = sort_key1 L x) ys
   = filter (\<lambda>x. title x = title k) (filter (\<lambda>x. sort_key2 L x = sort_key2 L k) ys)"
proof -
  have "(\<lambda>x. sort_key1 L k = sort_key1 L x)
      = (\<lambda>x. sort_key2 L x = sort_key2 L k \<and> title x = title k)"
    by (auto simp: sort_key1_def sort_key2_def fun_eq_iff)
  then show ?thesis by (simp only: filter_filter)
qed

lemma resort_is_pass:
  assumes "sorted (map (sort_key1 L) p)"
  shows "sort_key (sort_key1 L) (sort_key (sort_key2 L) p) = p"
proof (rule properties_for_sort_key)
  show "mset p = mset (sort_key (sort_key2 L) p)" by simp
  show "sorted (map (sort_key1 L) p)" by (rule assms)
  fix k assume "k \<in> set p"
  show "filter (\<lambda>x. sort_key1 L k = sort_key1 L x) p
      = filter (\<lambda>x. sort_key1 L k = sort_key1 L x) (sort_key (sort_key2 L) p)"
    by (simp only: key1_filter sort_key_stable)
qed

lemma score_all_nth:
  "score_all L g xs = Inr ys \<Longrightarrow> \<forall>x \<in> set xs. title x = t \<Longrightarrow> k < length xs \<Longrightarrow>
   score_row L (g t @ take k ys) (xs ! k) = Inr (ys ! k)"
proof (induction xs arbitrary: g ys k)
  case Nil
  then show ?case by simp
next
  case (Cons x xs)
  from Cons.prems(1) obtain r' out where
    r: "score_row L (g (title x)) x = Inr r'" and
    o: "score_all L (g(title x := g (title x) @ [r'])) xs = Inr out" and
    y: "ys = r' # out"
    by (auto simp: and_then_eq_Inr)
  have tx: "title x = t" using Cons.prems(2) by simp
  show ?case
  proof (cases k)
    case 0
    then show ?thesis using r y tx by simp
  next
    case (Suc j)
    have "score_row L ((g(title x := g (title x) @ [r'])) t @ take j out) (xs ! j) = Inr (out ! j)"
      using o by (rule Cons.IH) (use Cons.prems Suc in auto)
    then show ?thesis using Suc y tx by simp
  qed
qed

lemma score_all_length: "score_all L g xs = Inr ys \<Longrightarrow> length ys = length xs"
  using score_all_source [of L g xs ys] by (metis length_map)

lemma engine_group:
  assumes "compute_trend_and_flaky L rows = Inr out" "sort_by_title_time L rows = Inr s"
  shows "score_all L (\<lambda>t. []) (title_group t s) = Inr (title_group t out)"
proof -
  from assms obtain p where
    p: "score_all L (\<lambda>t. []) s = Inr p" and o: "sort_by_time L p = Inr out"
    by (auto simp: engine_steps)
  have "title_group t out = title_group t p"
    unfolding title_group_def
    using o pass_sorted [OF assms(2) p] by (simp add: sort_by_time_Inr group_after_final_sort)
  then show ?thesis
    unfolding title_group_def using p by (simp add: score_all_filter)
qed

lemma engine_scores_each:
  assumes "compute_trend_and_flaky L rows = Inr out" "sort_by_title_time L rows = Inr s"
    and "k < length (title_group t s)"
  shows "score_row L (take k (title_group t out)) (title_group t s ! k) = Inr (title_group t out ! k)"
proof -
  have "score_all L (\<lambda>t. []) (title_group t s) = Inr (title_group t out)"
    using assms(1,2) by (rule engine_group)
  from score_all_nth [OF this _ assms(3), of t] show ?thesis
    by (simp add: title_group_def)
qed

lemma engine_sorted_Inr:
  "compute_trend_and_flaky L rows = Inr out \<Longrightarrow> \<exists>s. sort_by_title_time L rows = Inr s"
  by (auto simp: engine_steps)

lemma engine_group_length:
  assumes "compute_trend_and_flaky L rows = Inr out" "sort_by_title_time L rows = Inr s"
  shows "length (title_group t out) = length (title_group t s)"
  using engine_group [OF assms] by (rule score_all_length)

lemma concat_singletons: "\<forall>s \<in> set xs. length s = 1 \<Longrightarrow> length (concat xs) = length xs"
  by (induction xs) auto

lemma traverse_status_symbol:
  "traverse status_symbol xs = Inr ys \<Longrightarrow> length ys = length xs \<and> (\<forall>s \<in> set ys. length s = 1)"
  by (induction xs arbitrary: ys) (auto simp: and_then_eq_Inr status_symbol_length)

lemma trend_syms_shape:
  assumes "trend_syms h r = Inr syms"
  shows "length syms = min 5 (length h + 1) \<and> (\<forall>s \<in> set syms. length s = 1)"
proof -
  from assms obtain hs c where
    hs: "traverse status_symbol (map status h) = Inr hs" and
    c: "status_symbol (status r) = Inr c" and
    syms: "syms = last_n 5 (last_n 4 hs @ [c])"
    by (auto simp: trend_syms_def and_then_eq_Inr)
  have l: "length hs = length h" and one: "\<forall>s \<in> set hs. length s = 1"
    using traverse_status_symbol [OF hs] by simp_all
  have c1: "length c = 1" using c by (rule status_symbol_length)
  have "set syms \<subseteq> set hs \<union> {c}"
    unfolding syms using set_last_n [of 5 "last_n 4 hs @ [c]"] set_last_n [of 4 hs] by auto
  then have "\<forall>s \<in> set syms. length s = 1" using one c1 by auto
  moreover have "length syms = min 5 (length h + 1)"
    unfolding syms by (simp add: length_last_n l)
  ultimately show ?thesis by simp
qed

lemma rules_trend: "rules L h r = Inr (syms, score, rs) \<Longrightarrow> trend_syms h r = Inr syms"
  by (auto simp: rules_def and_then_eq_Inr)

lemma score_row_trend_length:
  assumes "score_row L h r = Inr r'"
  shows "length (trend_last5 r') = min 5 (length h + 1)"
proof -
  from assms obtain syms score rs where
    a: "rules L h r = Inr (syms, score, rs)" and
    b: "r' = r\<lparr>trend_last5 := concat syms, is_flaky := verdict score rs, reasons := join (str ''; '') rs\<rparr>"
    using score_row_fields by blast
  have "length syms = min 5 (length h + 1) \<and> (\<forall>s \<in> set syms. length s = 1)"
    using rules_trend [OF a] by (rule trend_syms_shape)
  then show ?thesis by (simp add: b concat_singletons)
qed

lemma score_row_is_flaky:
  assumes "score_row L h r = Inr r'"
  shows "is_flaky r' = str ''yes'' \<or> is_flaky r' = str ''no''"
  using score_row_fields [OF assms] by (auto simp: verdict_def)

lemma reasons_distinct:
  "r1_reason \<noteq> r3_reason" "r1_reason \<noteq> r4_reason" "r3_reason \<noteq> r4_reason"
  by (simp_all add: r1_reason_def r3_reason_def r4_reason_def str_def)

lemma rules_parts:
  assumes "rules L h r = Inr (syms, score, rs)"
  shows "\<exists>ds r3 r4. trend_syms h r = Inr syms \<and> dur_list L h r = Inr ds
     \<and> r3_fires L r = Inr r3 \<and> r4_fires L ds = Inr r4
     \<and> score = (if r1_fires syms then 40 else 0) + (if r3 then 20 else 0) + (if r4 then 20 else 0)
     \<and> rs = (if r1_fires syms then [r1_reason] else []) @ (if r3 then [r3_reason] else [])
              @ (if r4 then [r4_reason] else [])"
proof -
  from assms obtain x ds r3 r4 where
    t: "trend_syms h r = Inr x" and d: "dur_list L h r = Inr ds" and
    r3: "r3_fires L r = Inr r3" and r4: "r4_fires L ds = Inr r4" and
    e: "(Inr (x, (if r1_fires x then 40 else 0) + (if r3 then 20 else 0) + (if r4 then 20 else 0),
           (if r1_fires x then [r1_reason] else []) @ (if r3 then [r3_reason] else [])
              @ (if r4 then [r4_reason] else [])) :: error + (pystr list \<times> nat \<times> pystr list))
        = Inr (syms, score, rs)"
    unfolding rules_def and_then_eq_Inr by blast
  have x: "x = syms" using e by simp
  have sc: "score = (if r1_fires syms then 40 else 0) + (if r3 then 20 else 0) + (if r4 then 20 else 0)"
    using e by auto
  have rs: "rs = (if r1_fires syms then [r1_reason] else []) @ (if r3 then [r3_reason] else [])
              @ (if r4 then [r4_reason] else [])"
    using e by auto
  show ?thesis
    using t d r3 r4 sc rs unfolding x by blast
qed

lemma rules_r1_reason:
  assumes "rules L h r = Inr (syms, score, rs)"
  shows "r1_reason \<in> set rs \<longleftrightarrow> r1_fires syms"
proof -
  from rules_parts [OF assms] obtain r3 r4 where
    "rs = (if r1_fires syms then [r1_reason] else []) @ (if r3 then [r3_reason] else [])
              @ (if r4 then [r4_reason] else [])"
    by blast
  then show ?thesis using reasons_distinct by simp
qed

lemma verdict_eq:
  assumes "rules L h r = Inr (syms, score, rs)"
  shows "verdict score rs = (if 40 \<le> score \<or> r1_fires syms then str ''yes'' else str ''no'')"
  by (simp add: verdict_def rules_r1_reason [OF assms])

lemma score_row_of_rules:
  assumes "score_row L h r = Inr r'" "rules L h r = Inr (syms, score, rs)"
  shows "r' = r\<lparr>trend_last5 := concat syms, is_flaky := verdict score rs, reasons := join (str ''; '') rs\<rparr>"
  using assms by (simp add: score_row_def)

lemma score_row_rules_ex:
  "score_row L h r = Inr r' \<Longrightarrow> \<exists>syms score rs. rules L h r = Inr (syms, score, rs)"
  using score_row_fields by blast

lemma last_n_append: "length recent = n \<Longrightarrow> last_n n (older @ recent) = recent"
  by (simp add: last_n_def)

lemma dur_list_length:
  assumes "dur_list L h r = Inr ds"
  shows "length ds = length (filter (\<lambda>x. duration_ms x \<noteq> []) (last_n 4 h))
                    + (if duration_ms r = [] then 0 else 1)"
proof -
  from assms obtain cur hd where
    c: "(if duration_ms r \<noteq> [] then and_then (int_cell L (duration_ms r)) (\<lambda>d. Inr [d]) else Inr []) = Inr cur"
    and h: "traverse (int_cell L) (filter (\<lambda>d. d \<noteq> []) (map duration_ms (last_n 4 h))) = Inr hd"
    and ds: "ds = hd @ cur"
    by (auto simp: dur_list_def and_then_eq_Inr)
  have "length cur = (if duration_ms r = [] then 0 else 1)"
    using c by (auto simp: and_then_eq_Inr split: if_splits)
  moreover have "length hd = length (filter (\<lambda>x. duration_ms x \<noteq> []) (last_n 4 h))"
    using traverse_length [OF h] by (simp add: filter_map comp_def)
  ultimately show ?thesis by (simp add: ds)
qed

lemma r4_needs_three: "length ds < 3 \<Longrightarrow> r4_fires L ds = Inr False"
  by (simp add: r4_fires_def)

lemma first_record_rules:
  assumes "rules L [] r = Inr (syms, score, rs)" "dur_list L [] r = Inr ds"
  shows "\<not> r1_fires syms \<and> length ds < 3"
proof -
  have "length syms = min 5 (length ([] :: row list) + 1)"
    using trend_syms_shape [OF rules_trend [OF assms(1)]] by blast
  then have "count_list syms fail_sym \<le> 1"
    using count_le_length [of syms fail_sym] by simp
  then have "\<not> r1_fires syms" by (simp add: r1_fires_def)
  moreover have "length ds < 3"
    using dur_list_length [OF assms(2)] by (simp add: last_n_def)
  ultimately show ?thesis by simp
qed

lemma new_rows_kept:
  "new_rows L items = Inr rows \<Longrightarrow>
   traverse (to_row L) (filter (\<lambda>it. has_attributes it = Inr True) items) = Inr rows"
proof (induction items arbitrary: rows)
  case Nil
  then show ?case by simp
next
  case (Cons it items)
  from Cons.prems obtain keep where k: "has_attributes it = Inr keep"
    by (auto simp: and_then_eq_Inr)
  show ?case
  proof (cases keep)
    case True
    with Cons.prems k obtain r rs where
      "to_row L it = Inr r" "new_rows L items = Inr rs" "rows = r # rs"
      by (auto simp: and_then_eq_Inr)
    then show ?thesis using k True Cons.IH by simp
  next
    case False
    with Cons.prems k have "new_rows L items = Inr rows" by simp
    then show ?thesis using k False Cons.IH by simp
  qed
qed

lemma traverse_member:
  "traverse f xs = Inr ys \<Longrightarrow> x \<in> set xs \<Longrightarrow> \<exists>y \<in> set ys. f x = Inr y"
  by (induction xs arbitrary: ys) (auto simp: and_then_eq_Inr)

lemma to_row_untitled:
  assumes "dict_get members ''attributes'' = JObj attr" "attr \<noteq> []"
    and "\<not> truthy (dict_get attr ''title'')"
    and "to_row L (JObj members) = Inr r"
  shows "title r = []"
proof -
  have m: "map_of members (str ''attributes'') = Some (JObj attr)"
    using assms(1) by (auto simp: dict_get_def split: option.splits)
  have t: "py_or (dict_get attr ''title'') (JStr []) = JStr []"
    using assms(3) by (simp add: py_or_def)
  show ?thesis
    using assms(4) by (auto simp: to_row_def m t Let_def strip_def)
qed

section \<open>The scenarios, run\<close>

lemmas run_defs =
  compute_trend_and_flaky_def sort_by_title_time_def sort_by_time_def sort_key1_def sort_key2_def
  parse_dt_def replace_Z_def sample_lib_def sample_fromisoformat_def ledger_row_def str_def
  and_then_def score_row_def rules_def trend_syms_def dur_list_def r3_fires_def r4_fires_def
  retries_int_def int_cell_def dec_int_def status_symbol_def lower_def last_n_def r1_fires_def
  verdict_def pass_sym_def fail_sym_def skip_sym_def r1_reason_def r3_reason_def r4_reason_def
  datetime_min_def exact_unstable_def median_exact_def title_group_def

lemma r1_scenario_run: "compute_trend_and_flaky sample_lib r1_scenario = Inr r1_scored"
  by (simp add: r1_scenario_def r1_scored_def run_defs)

lemma r1_scenario_order: "sort_by_title_time sample_lib r1_scenario = Inr r1_scenario"
  by (simp add: r1_scenario_def run_defs)

lemma r1_prefix_run: "compute_trend_and_flaky sample_lib (take 2 r1_scenario) = Inr (take 2 r1_scored)"
  by (simp add: r1_scenario_def r1_scored_def run_defs)

lemma r1_prefix_order: "sort_by_title_time sample_lib (take 2 r1_scenario) = Inr (take 2 r1_scenario)"
  by (simp add: r1_scenario_def run_defs)

lemma r3_scenario_run: "compute_trend_and_flaky sample_lib r3_scenario = Inr r3_scored"
  by (simp add: r3_scenario_def r3_scored_def run_defs)

lemma r3_scenario_order: "sort_by_title_time sample_lib r3_scenario = Inr r3_scenario"
  by (simp add: r3_scenario_def run_defs)

lemma combined_scenario_run: "compute_trend_and_flaky sample_lib combined_scenario = Inr combined_scored"
  by (simp add: combined_scenario_def combined_scored_def run_defs)

lemma combined_scenario_order:
  "sort_by_title_time sample_lib combined_scenario
   = Inr [combined_scenario ! 1, combined_scenario ! 2, combined_scenario ! 0]"
  by (simp add: combined_scenario_def run_defs)

lemma two_titles_run: "compute_trend_and_flaky sample_lib two_titles_scenario = Inr two_titles_scored"
  by (simp add: two_titles_scenario_def two_titles_scored_def run_defs)

lemma six_runs_run: "compute_trend_and_flaky sample_lib six_runs_scenario = Inr six_runs_scored"
  by (simp add: six_runs_scenario_def six_runs_scored_def run_defs)

lemma untitled_item_row: "new_rows sample_lib [untitled_item] = Inr [untitled_row]"
  by (simp add: untitled_item_def untitled_row_def has_attributes_def dict_get_def to_row_def
      py_or_def strip_def str_of_int_def str_def Let_def and_then_def)

lemma untitled_row_run:
  "compute_trend_and_flaky sample_lib [untitled_row]
   = Inr [untitled_row\<lparr>trend_last5 := [9989], is_flaky := str ''no'', reasons := []\<rparr>]"
  by (simp add: untitled_row_def run_defs)

lemma six_runs_order: "sort_by_title_time sample_lib six_runs_scenario = Inr six_runs_scenario"
  by (simp add: six_runs_scenario_def run_defs)

lemma mixed_kinds_first_sort:
  "sort_by_title_time sample_lib mixed_kinds_scenario = Inr mixed_kinds_scenario"
  by (simp add: mixed_kinds_scenario_def run_defs)

section \<open>The claims\<close>

text \<open>
  In the statements below, \<open>s\<close> is the list as line 106 sorts it, so \<open>title_group t s\<close>
  is the chronological order of title \<open>t\<close>, \<open>title_group t s ! k\<close> its record number
  \<open>k\<close> (from 0), \<open>title_group t out ! k\<close> the same record in the returned list, and
  \<open>take k (title_group t out)\<close> the history the loop holds when it reaches that record.
\<close>

subsection \<open>C1: the verdict\<close>

text \<open>
  Claim C1. For every record the engine scores, \<open>is_flaky\<close> is \<open>"yes"\<close> if the
  record's score is at least 40 or rule R1 fired, and \<open>"no"\<close> otherwise. The score is
  40 for R1 plus 20 for R3 plus 20 for R4, so a record on which R3 and R4 fire and R1
  does not has score 40 and the verdict \<open>"yes"\<close>. The first record of a title
  (\<open>k = 0\<close>) has no history: neither R1 nor R4 can fire, its score is 20 when R3
  fires and 0 otherwise, and its verdict is \<open>"no"\<close>; the single record with status
  \<open>passed\<close> and two retries is the first run of the witness.
\<close>

theorem flaky_verdict:
  assumes "compute_trend_and_flaky L rows = Inr out"
    and "sort_by_title_time L rows = Inr s"
    and "k < length (title_group t s)"
  shows "\<exists>syms score rs ds r3 r4.
     rules L (take k (title_group t out)) (title_group t s ! k) = Inr (syms, score, rs)
     \<and> dur_list L (take k (title_group t out)) (title_group t s ! k) = Inr ds
     \<and> r3_fires L (title_group t s ! k) = Inr r3 \<and> r4_fires L ds = Inr r4
     \<and> score = (if r1_fires syms then 40 else 0) + (if r3 then 20 else 0) + (if r4 then 20 else 0)
     \<and> is_flaky (title_group t out ! k)
         = (if 40 \<le> score \<or> r1_fires syms then str ''yes'' else str ''no'')
     \<and> (r3 \<and> r4 \<and> \<not> r1_fires syms
         \<longrightarrow> score = 40 \<and> is_flaky (title_group t out ! k) = str ''yes'')
     \<and> (k = 0 \<longrightarrow> score = (if r3 then 20 else 0)
           \<and> is_flaky (title_group t out ! k) = str ''no'')"
proof -
  let ?h = "take k (title_group t out)" and ?r = "title_group t s ! k"
  have sr: "score_row L ?h ?r = Inr (title_group t out ! k)"
    using assms by (rule engine_scores_each)
  then obtain syms score rs where a: "rules L ?h ?r = Inr (syms, score, rs)"
    using score_row_rules_ex by blast
  from rules_parts [OF a] obtain ds r3 r4 where
    d: "dur_list L ?h ?r = Inr ds" and r3: "r3_fires L ?r = Inr r3" and r4: "r4_fires L ds = Inr r4"
    and sc: "score = (if r1_fires syms then 40 else 0) + (if r3 then 20 else 0) + (if r4 then 20 else 0)"
    by blast
  have v: "is_flaky (title_group t out ! k)
      = (if 40 \<le> score \<or> r1_fires syms then str ''yes'' else str ''no'')"
    using score_row_of_rules [OF sr a] verdict_eq [OF a] by simp
  have both: "r3 \<and> r4 \<and> \<not> r1_fires syms
         \<longrightarrow> score = 40 \<and> is_flaky (title_group t out ! k) = str ''yes''"
    using sc v by simp
  have first: "score = (if r3 then 20 else 0) \<and> is_flaky (title_group t out ! k) = str ''no''"
    if "k = 0"
  proof -
    have "\<not> r1_fires syms \<and> length ds < 3"
      using a d that by (intro first_record_rules [of L ?r _ score rs]) simp_all
    moreover from this have "\<not> r4"
      using r4 r4_needs_three [of ds L] by simp
    ultimately show ?thesis using sc v by simp
  qed
  show ?thesis using a d r3 r4 sc v both first by blast
qed

theorem flaky_verdict_witness:
  "compute_trend_and_flaky sample_lib r3_scenario = Inr r3_scored
   \<and> rules sample_lib [] (ledger_row ''2024-01-01T00:00:00'' ''T'' ''passed'' ''2'' '''')
       = Inr ([pass_sym], 20, [r3_reason])
   \<and> is_flaky (title_group (str ''T'') r3_scored ! 0) = str ''no''
   \<and> compute_trend_and_flaky sample_lib combined_scenario = Inr combined_scored
   \<and> rules sample_lib (take 2 combined_scored)
        (ledger_row ''2024-01-03T00:00:00'' ''T'' ''passed'' ''2'' ''600'')
       = Inr ([pass_sym, pass_sym, pass_sym], 40, [r3_reason, r4_reason])
   \<and> is_flaky (title_group (str ''T'') combined_scored ! 2) = str ''yes''"
proof -
  have k1: "0 < length (title_group (str ''T'') r3_scenario)"
    by (simp add: r3_scenario_def title_group_def ledger_row_def)
  have h1: "take 0 (title_group (str ''T'') r3_scored) = []" by simp
  have c1: "title_group (str ''T'') r3_scenario ! 0
      = ledger_row ''2024-01-01T00:00:00'' ''T'' ''passed'' ''2'' ''''"
    by (simp add: r3_scenario_def title_group_def ledger_row_def)
  have e1: "rules sample_lib [] (ledger_row ''2024-01-01T00:00:00'' ''T'' ''passed'' ''2'' '''')
       = Inr ([pass_sym], 20, [r3_reason])"
    by (simp add: run_defs)
  from flaky_verdict [OF r3_scenario_run r3_scenario_order k1]
  obtain syms score rs where
    "rules sample_lib [] (ledger_row ''2024-01-01T00:00:00'' ''T'' ''passed'' ''2'' '''')
       = Inr (syms, score, rs)"
    and v1: "is_flaky (title_group (str ''T'') r3_scored ! 0)
       = (if 40 \<le> score \<or> r1_fires syms then str ''yes'' else str ''no'')"
    unfolding h1 c1 by blast
  with e1 have "syms = [pass_sym]" "score = 20" by simp_all
  with v1 have n1: "is_flaky (title_group (str ''T'') r3_scored ! 0) = str ''no''"
    by (simp add: r1_fires_def pass_sym_def fail_sym_def)
  have k2: "2 < length (title_group (str ''T'')
      [combined_scenario ! 1, combined_scenario ! 2, combined_scenario ! 0])"
    by (simp add: combined_scenario_def title_group_def ledger_row_def)
  have h2: "take 2 (title_group (str ''T'') combined_scored) = take 2 combined_scored"
    by (simp add: combined_scored_def title_group_def ledger_row_def)
  have c2: "title_group (str ''T'')
      [combined_scenario ! 1, combined_scenario ! 2, combined_scenario ! 0] ! 2
      = ledger_row ''2024-01-03T00:00:00'' ''T'' ''passed'' ''2'' ''600''"
    by (simp add: combined_scenario_def title_group_def ledger_row_def)
  have e2: "rules sample_lib (take 2 combined_scored)
        (ledger_row ''2024-01-03T00:00:00'' ''T'' ''passed'' ''2'' ''600'')
       = Inr ([pass_sym, pass_sym, pass_sym], 40, [r3_reason, r4_reason])"
    by (simp add: combined_scored_def run_defs)
  from flaky_verdict [OF combined_scenario_run combined_scenario_order k2]
  obtain syms' score' rs' where
    "rules sample_lib (take 2 combined_scored)
        (ledger_row ''2024-01-03T00:00:00'' ''T'' ''passed'' ''2'' ''600'') = Inr (syms', score', rs')"
    and v2: "is_flaky (title_group (str ''T'') combined_scored ! 2)
       = (if 40 \<le> score' \<or> r1_fires syms' then str ''yes'' else str ''no'')"
    unfolding h2 c2 by blast
  with e2 have "score' = 40" by simp
  with v2 have y2: "is_flaky (title_group (str ''T'') combined_scored ! 2) = str ''yes''"
    by simp
  show ?thesis
    using r3_scenario_run e1 n1 combined_scenario_run e2 y2 by simp
qed

subsection \<open>C2: no lookahead\<close>

text \<open>
  Claim C2. The scored records of a title, up to any position of its chronological
  order, depend only on the title's records up to that position: two inputs whose
  chronological orders of title \<open>t\<close> agree on the first \<open>n\<close> records get the same first
  \<open>n\<close> scored records of that title, whatever comes later in the title (records
  removed, added or changed) and whatever the other titles hold. The whole record is the
  same, so \<open>trend_last5\<close>, \<open>is_flaky\<close> and \<open>reasons\<close> are, and so is what \<open>rules\<close>
  computes for it, the score included. The witness removes the last three records of a
  title of five.
\<close>

theorem no_lookahead:
  assumes "compute_trend_and_flaky L rows = Inr out"
    and "compute_trend_and_flaky L rows' = Inr out'"
    and "sort_by_title_time L rows = Inr s"
    and "sort_by_title_time L rows' = Inr s'"
    and "take n (title_group t s) = take n (title_group t s')"
  shows "take n (title_group t out) = take n (title_group t out')
     \<and> (\<forall>k<n. rules L (take k (title_group t out)) (title_group t s ! k)
               = rules L (take k (title_group t out')) (title_group t s' ! k))"
proof -
  from assms(1,3) obtain p where
    p: "score_all L (\<lambda>t. []) s = Inr p" and o: "sort_by_time L p = Inr out"
    by (auto simp: engine_steps)
  from assms(2,4) obtain p' where
    p': "score_all L (\<lambda>t. []) s' = Inr p'" and o': "sort_by_time L p' = Inr out'"
    by (auto simp: engine_steps)
  have g: "title_group t out = title_group t p"
    using o pass_sorted [OF assms(3) p]
    by (simp add: sort_by_time_Inr group_after_final_sort title_group_def)
  have g': "title_group t out' = title_group t p'"
    using o' pass_sorted [OF assms(4) p']
    by (simp add: sort_by_time_Inr group_after_final_sort title_group_def)
  have "score_all L (\<lambda>t. []) (take n (title_group t s)) = Inr (take n (title_group t p))"
    unfolding title_group_def using p by (intro score_all_take score_all_filter)
  moreover have "score_all L (\<lambda>t. []) (take n (title_group t s')) = Inr (take n (title_group t p'))"
    unfolding title_group_def using p' by (intro score_all_take score_all_filter)
  ultimately have same: "take n (title_group t out) = take n (title_group t out')"
    using assms(5) g g' by simp
  have "rules L (take k (title_group t out)) (title_group t s ! k)
      = rules L (take k (title_group t out')) (title_group t s' ! k)" if "k < n" for k
  proof -
    have "take k (title_group t out) = take k (take n (title_group t out))"
      using that by (simp add: min_def)
    also have "\<dots> = take k (take n (title_group t out'))" by (simp only: same)
    also have "\<dots> = take k (title_group t out')"
      using that by (simp add: min_def)
    finally have h: "take k (title_group t out) = take k (title_group t out')" .
    have "title_group t s ! k = take n (title_group t s) ! k"
      using that by simp
    also have "\<dots> = take n (title_group t s') ! k" by (simp only: assms(5))
    also have "\<dots> = title_group t s' ! k"
      using that by simp
    finally show ?thesis by (simp only: h)
  qed
  then show ?thesis using same by blast
qed

theorem no_lookahead_witness:
  "compute_trend_and_flaky sample_lib r1_scenario = Inr r1_scored
   \<and> compute_trend_and_flaky sample_lib (take 2 r1_scenario) = Inr (take 2 r1_scored)
   \<and> take 2 (title_group (str ''T'') r1_scored)
      = take 2 (title_group (str ''T'') (take 2 r1_scored))
   \<and> rules sample_lib (take 1 (title_group (str ''T'') r1_scored))
        (title_group (str ''T'') r1_scenario ! 1)
      = rules sample_lib (take 1 (title_group (str ''T'') (take 2 r1_scored)))
        (title_group (str ''T'') (take 2 r1_scenario) ! 1)"
proof -
  have "take 2 (title_group (str ''T'') r1_scenario)
      = take 2 (title_group (str ''T'') (take 2 r1_scenario))"
    by (simp add: r1_scenario_def title_group_def ledger_row_def)
  from no_lookahead [OF r1_scenario_run r1_prefix_run r1_scenario_order r1_prefix_order this]
  show ?thesis
    using r1_scenario_run r1_prefix_run by simp
qed

subsection \<open>C3: idempotence\<close>

text \<open>
  Claim C3. Running the engine on the list it returned returns that same list: every
  record keeps its \<open>trend_last5\<close>, \<open>is_flaky\<close> and \<open>reasons\<close>, and its place.
\<close>

theorem engine_idempotent:
  assumes "compute_trend_and_flaky L rows = Inr out"
  shows "compute_trend_and_flaky L out = Inr out"
proof -
  from assms obtain s p where
    s: "sort_by_title_time L rows = Inr s" and
    p: "score_all L (\<lambda>t. []) s = Inr p" and
    o: "sort_by_time L p = Inr out"
    by (auto simp: engine_steps)
  have kinds: "\<forall>a \<in> set p. \<forall>b \<in> set p. same_kind (parse_dt L (run_at a)) (parse_dt L (run_at b))"
    and out: "out = sort_key (sort_key2 L) p"
    using o by (simp_all add: sort_by_time_Inr)
  have sp: "sorted (map (sort_key1 L) p)" using s p by (rule pass_sorted)
  have "sort_key (sort_key1 L) out = p"
    unfolding out using sp by (rule resort_is_pass)
  then have s2: "sort_by_title_time L out = Inr p"
    using kinds by (simp add: sort_by_title_time_def out)
  have p2: "score_all L (\<lambda>t. []) p = Inr p"
    using p by (rule score_all_again) simp
  show ?thesis
    unfolding engine_steps using s2 p2 o by blast
qed

theorem engine_idempotent_witness:
  "compute_trend_and_flaky sample_lib two_titles_scenario = Inr two_titles_scored
   \<and> compute_trend_and_flaky sample_lib two_titles_scored = Inr two_titles_scored"
  using engine_idempotent [OF two_titles_run] two_titles_run by simp

subsection \<open>C4: the returned list\<close>

text \<open>
  Claim C4 says that for every input list the engine returns the same records sorted by
  \<open>run_at\<close>, an unparsable \<open>run_at\<close> sorting as the least timestamp. The fallback of
  \<open>parse_dt\<close> is \<open>datetime.min\<close>, which is naive, while a timestamp ending in \<open>Z\<close> parses
  as aware: on an export with one item of each kind and two titles, the sort of line 106
  goes through (\<open>mixed_kinds_first_sort\<close>), the sort of line 153 compares the two
  timestamps, and the engine raises \<open>TypeError\<close> instead of returning.
\<close>

theorem unparsable_beside_aware_raises:
  "parse_dt sample_lib (run_at (mixed_kinds_scenario ! 0)) = Aware 738886
   \<and> parse_dt sample_lib (run_at (mixed_kinds_scenario ! 1)) = datetime_min
   \<and> compute_trend_and_flaky sample_lib mixed_kinds_scenario = Inl TypeError"
  by (simp add: mixed_kinds_scenario_def run_defs)

text \<open>
  What holds whenever the engine does return: the list has the length of the input and
  the same records up to the three derived cells, it is sorted by the parsed \<open>run_at\<close>,
  and records of equal time keep the order of the scoring pass.
\<close>

theorem engine_contract:
  assumes "compute_trend_and_flaky L rows = Inr out"
  shows "length out = length rows
    \<and> mset (map source_fields out) = mset (map source_fields rows)
    \<and> sorted (map (sort_key2 L) out)
    \<and> (\<exists>s p. sort_by_title_time L rows = Inr s \<and> score_all L (\<lambda>t. []) s = Inr p
          \<and> (\<forall>k. filter (\<lambda>r. sort_key2 L r = k) out = filter (\<lambda>r. sort_key2 L r = k) p))"
proof -
  from assms obtain s p where
    s: "sort_by_title_time L rows = Inr s" and
    p: "score_all L (\<lambda>t. []) s = Inr p" and
    o: "sort_by_time L p = Inr out"
    by (auto simp: engine_steps)
  have out: "out = sort_key (sort_key2 L) p" using o by (simp add: sort_by_time_Inr)
  have s': "s = sort_key (sort_key1 L) rows" using s by (rule sort_by_title_time_Inr)
  have src: "map source_fields p = map source_fields s" using p by (rule score_all_source)
  have "mset (map source_fields out) = image_mset source_fields (mset p)"
    by (simp add: out)
  also have "\<dots> = mset (map source_fields p)" by simp
  also have "\<dots> = mset (map source_fields s)" by (simp only: src)
  also have "\<dots> = mset (map source_fields rows)" by (simp add: s')
  finally have m: "mset (map source_fields out) = mset (map source_fields rows)" .
  have l: "length out = length rows"
    using m by (metis length_map size_mset)
  have so: "sorted (map (sort_key2 L) out)" by (simp add: out)
  have st: "filter (\<lambda>r. sort_key2 L r = k) out = filter (\<lambda>r. sort_key2 L r = k) p" for k
    unfolding out by (rule sort_key_stable)
  show ?thesis using l m so s p st by blast
qed

theorem engine_contract_witness:
  "compute_trend_and_flaky sample_lib two_titles_scenario = Inr two_titles_scored
   \<and> length two_titles_scored = length two_titles_scenario
   \<and> mset (map source_fields two_titles_scored) = mset (map source_fields two_titles_scenario)
   \<and> sorted (map (sort_key2 sample_lib) two_titles_scored)
   \<and> map (sort_key2 sample_lib) two_titles_scored = [0, 738886, 738887, 738888]"
proof -
  have "map (sort_key2 sample_lib) two_titles_scored = [0, 738886, 738887, 738888]"
    by (simp add: two_titles_scored_def run_defs)
  then show ?thesis
    using engine_contract [OF two_titles_run] two_titles_run by simp
qed

subsection \<open>C5: rule R1\<close>

text \<open>
  Claim C5 gives the reason of rule R1 as \<open>"\<ge>2 fails in last 5"\<close>. The source appends
  \<open>">1 fail in last5"\<close>: on the statuses fail, fail, pass, pass, pass the fifth record's
  trend has two fail glyphs, R1 fires, and its \<open>reasons\<close> is that string, in which the
  claim's text does not occur.
\<close>

theorem r1_reason_text_counterexample:
  "compute_trend_and_flaky sample_lib r1_scenario = Inr r1_scored
   \<and> r1_fires [fail_sym, fail_sym, pass_sym, pass_sym, pass_sym]
   \<and> trend_last5 (r1_scored ! 4) = concat [fail_sym, fail_sym, pass_sym, pass_sym, pass_sym]
   \<and> reasons (r1_scored ! 4) = str ''>1 fail in last5''
   \<and> \<not> sublist (8805 # str ''2 fails in last 5'') (reasons (r1_scored ! 4))"
proof -
  have r: "reasons (r1_scored ! 4) = str ''>1 fail in last5''"
    by (simp add: r1_scored_def)
  have "8805 \<notin> set (reasons (r1_scored ! 4))"
    unfolding r by (simp add: str_def)
  then have "\<not> sublist (8805 # str ''2 fails in last 5'') (reasons (r1_scored ! 4))"
    using set_mono_sublist [of "8805 # str ''2 fails in last 5''" "reasons (r1_scored ! 4)"]
    by auto
  then show ?thesis
    using r1_scenario_run r
    by (simp add: r1_scored_def r1_fires_def fail_sym_def pass_sym_def)
qed

text \<open>
  Claim C5, amended. R1 fires on a record when its trend has at least two fail glyphs.
  It then adds 40 to the score, which is the sum of the points of the rules that fire,
  and puts \<open>">1 fail in last5"\<close> first in the list of reasons, so that the \<open>reasons\<close>
  cell starts with it, and \<open>is_flaky\<close> is \<open>"yes"\<close>. When R1 does not fire, it adds nothing
  and that reason is absent.
\<close>

theorem r1_adds_forty:
  assumes "compute_trend_and_flaky L rows = Inr out"
    and "sort_by_title_time L rows = Inr s"
    and "k < length (title_group t s)"
  shows "\<exists>syms score rs r3 r4.
     rules L (take k (title_group t out)) (title_group t s ! k) = Inr (syms, score, rs)
     \<and> score = (if r1_fires syms then 40 else 0) + (if r3 then 20 else 0) + (if r4 then 20 else 0)
     \<and> rs = (if r1_fires syms then [r1_reason] else []) @ (if r3 then [r3_reason] else [])
              @ (if r4 then [r4_reason] else [])
     \<and> reasons (title_group t out ! k) = join (str ''; '') rs
     \<and> (r1_fires syms \<longrightarrow>
           prefix r1_reason (reasons (title_group t out ! k))
           \<and> is_flaky (title_group t out ! k) = str ''yes'')
     \<and> (\<not> r1_fires syms \<longrightarrow> r1_reason \<notin> set rs)"
proof -
  let ?h = "take k (title_group t out)" and ?r = "title_group t s ! k"
  have sr: "score_row L ?h ?r = Inr (title_group t out ! k)"
    using assms by (rule engine_scores_each)
  then obtain syms score rs where a: "rules L ?h ?r = Inr (syms, score, rs)"
    using score_row_rules_ex by blast
  from rules_parts [OF a] obtain r3 r4 where
    sc: "score = (if r1_fires syms then 40 else 0) + (if r3 then 20 else 0) + (if r4 then 20 else 0)"
    and rs: "rs = (if r1_fires syms then [r1_reason] else []) @ (if r3 then [r3_reason] else [])
              @ (if r4 then [r4_reason] else [])"
    by blast
  have f: "reasons (title_group t out ! k) = join (str ''; '') rs"
    and v: "is_flaky (title_group t out ! k) = verdict score rs"
    using score_row_of_rules [OF sr a] by simp_all
  have yes: "prefix r1_reason (reasons (title_group t out ! k))
           \<and> is_flaky (title_group t out ! k) = str ''yes''" if "r1_fires syms"
  proof -
    have "prefix r1_reason (join (str ''; '') rs)"
      using that rs by (cases r3; cases r4) simp_all
    then show ?thesis using that sc f v by (simp add: verdict_def)
  qed
  have no: "r1_reason \<notin> set rs" if "\<not> r1_fires syms"
    using that rules_r1_reason [OF a] by simp
  show ?thesis using a sc rs f yes no by blast
qed

theorem r1_adds_forty_witness:
  "compute_trend_and_flaky sample_lib r1_scenario = Inr r1_scored
   \<and> rules sample_lib (take 4 r1_scored) (r1_scenario ! 4)
       = Inr ([fail_sym, fail_sym, pass_sym, pass_sym, pass_sym], 40, [r1_reason])
   \<and> r1_fires [fail_sym, fail_sym, pass_sym, pass_sym, pass_sym]
   \<and> prefix r1_reason (reasons (title_group (str ''T'') r1_scored ! 4))
   \<and> reasons (r1_scored ! 4) = str ''>1 fail in last5''
   \<and> is_flaky (title_group (str ''T'') r1_scored ! 4) = str ''yes''"
proof -
  have k: "4 < length (title_group (str ''T'') r1_scenario)"
    by (simp add: r1_scenario_def title_group_def ledger_row_def)
  have h: "take 4 (title_group (str ''T'') r1_scored) = take 4 r1_scored"
    by (simp add: r1_scored_def title_group_def ledger_row_def)
  have c: "title_group (str ''T'') r1_scenario ! 4 = r1_scenario ! 4"
    by (simp add: r1_scenario_def title_group_def ledger_row_def)
  have e: "rules sample_lib (take 4 r1_scored) (r1_scenario ! 4)
       = Inr ([fail_sym, fail_sym, pass_sym, pass_sym, pass_sym], 40, [r1_reason])"
    by (simp add: r1_scored_def r1_scenario_def run_defs)
  have f: "r1_fires [fail_sym, fail_sym, pass_sym, pass_sym, pass_sym]"
    by (simp add: r1_fires_def fail_sym_def pass_sym_def)
  from r1_adds_forty [OF r1_scenario_run r1_scenario_order k]
  obtain syms score rs where
    a: "rules sample_lib (take 4 r1_scored) (r1_scenario ! 4) = Inr (syms, score, rs)"
    and y: "r1_fires syms \<longrightarrow>
           prefix r1_reason (reasons (title_group (str ''T'') r1_scored ! 4))
           \<and> is_flaky (title_group (str ''T'') r1_scored ! 4) = str ''yes''"
    unfolding h c by blast
  from a e have "syms = [fail_sym, fail_sym, pass_sym, pass_sym, pass_sym]" by simp
  with y f have "prefix r1_reason (reasons (title_group (str ''T'') r1_scored ! 4))
     \<and> is_flaky (title_group (str ''T'') r1_scored ! 4) = str ''yes''"
    by simp
  moreover have "reasons (r1_scored ! 4) = str ''>1 fail in last5''"
    by (simp add: r1_scored_def)
  ultimately show ?thesis using r1_scenario_run e f by simp
qed

subsection \<open>C6: items without a title\<close>

text \<open>
  Claim C6 says that items with an empty or missing title are excluded before scoring.
  Line 163 only drops the items whose \<open>attributes\<close> are missing or empty; \<open>to_row\<close>
  turns a missing title into \<open>""\<close>, and that row is scored like any other.
\<close>

theorem untitled_item_counterexample:
  "new_rows sample_lib [untitled_item] = Inr [untitled_row]
   \<and> title untitled_row = []
   \<and> compute_trend_and_flaky sample_lib [untitled_row]
       = Inr [untitled_row\<lparr>trend_last5 := [9989], is_flaky := str ''no'', reasons := []\<rparr>]
   \<and> title (untitled_row\<lparr>trend_last5 := [9989], is_flaky := str ''no'', reasons := []\<rparr>) = []"
  using untitled_item_row untitled_row_run by (simp add: untitled_row_def)

text \<open>
  Claim C6, amended. The rows that enter the scoring are the rows of exactly the items
  whose \<open>attributes\<close> are not empty, in their order; an item with attributes whose title
  is missing, null or empty is among them, as a row with the title \<open>""\<close>.
\<close>

theorem untitled_items_are_scored:
  assumes "new_rows L items = Inr rows"
  shows "traverse (to_row L) (filter (\<lambda>it. has_attributes it = Inr True) items) = Inr rows
    \<and> (\<forall>members attr. JObj members \<in> set items
          \<and> dict_get members ''attributes'' = JObj attr \<and> attr \<noteq> []
          \<and> \<not> truthy (dict_get attr ''title'')
        \<longrightarrow> (\<exists>r \<in> set rows. to_row L (JObj members) = Inr r \<and> title r = []))"
proof -
  have a: "traverse (to_row L) (filter (\<lambda>it. has_attributes it = Inr True) items) = Inr rows"
    using assms by (rule new_rows_kept)
  have b: "\<exists>r \<in> set rows. to_row L (JObj members) = Inr r \<and> title r = []"
    if "JObj members \<in> set items" "dict_get members ''attributes'' = JObj attr" "attr \<noteq> []"
      "\<not> truthy (dict_get attr ''title'')" for members attr
  proof -
    have "has_attributes (JObj members) = Inr True"
      using that(2,3) by (simp add: has_attributes_def)
    then have "JObj members \<in> set (filter (\<lambda>it. has_attributes it = Inr True) items)"
      using that(1) by simp
    from traverse_member [OF a this] obtain r where
      r: "r \<in> set rows" "to_row L (JObj members) = Inr r" by blast
    then show ?thesis using to_row_untitled [OF that(2,3,4) r(2)] by blast
  qed
  show ?thesis using a b by blast
qed

theorem untitled_items_are_scored_witness:
  "new_rows sample_lib [untitled_item] = Inr [untitled_row]
   \<and> traverse (to_row sample_lib)
        (filter (\<lambda>it. has_attributes it = Inr True) [untitled_item]) = Inr [untitled_row]
   \<and> to_row sample_lib untitled_item = Inr untitled_row
   \<and> title untitled_row = []"
proof -
  have m: "untitled_item = JObj [(str ''attributes'', JObj [(str ''status'', JStr (str ''passed''))])]"
    by (simp add: untitled_item_def)
  have g: "dict_get [(str ''attributes'', JObj [(str ''status'', JStr (str ''passed''))])] ''attributes''
      = JObj [(str ''status'', JStr (str ''passed''))]"
    by (simp add: dict_get_def)
  have n: "\<not> truthy (dict_get [(str ''status'', JStr (str ''passed''))] ''title'')"
    by (simp add: dict_get_def str_def)
  from untitled_items_are_scored [OF untitled_item_row]
  have t: "traverse (to_row sample_lib)
        (filter (\<lambda>it. has_attributes it = Inr True) [untitled_item]) = Inr [untitled_row]"
    and "\<exists>r \<in> set [untitled_row]. to_row sample_lib untitled_item = Inr r \<and> title r = []"
    using g n unfolding m by auto
  then show ?thesis using untitled_item_row by simp
qed

subsection \<open>C8: fatal input errors\<close>

text \<open>
  Claim C8. When the input file cannot be opened, is not UTF-8, is not JSON, holds no
  item collection, or yields no row, \<open>main\<close> ends with an error in \<open>load_json\<close>,
  \<open>parse_items\<close> or the emptiness check, all of them before \<open>compute_trend_and_flaky\<close>
  and \<open>write_full_csv\<close>, and the file system, the ledger with it, is as it was.
\<close>

theorem fatal_input_leaves_ledger:
  assumes "fs in_json = None
     \<or> (\<exists>data. fs in_json = Some data \<and> utf8_decode sys data = None)
     \<or> (\<exists>data decoded. fs in_json = Some data \<and> utf8_decode sys data = Some decoded
            \<and> json_loads sys decoded = None)
     \<or> (\<exists>doc e. load_json sys fs in_json = Inr doc \<and> parse_items doc = Inl e)
     \<or> (\<exists>doc items. load_json sys fs in_json = Inr doc \<and> parse_items doc = Inr items
            \<and> new_rows L items = Inr [])"
  shows "\<exists>st e. main sys L [prog, in_json, out_csv] fs = (Some (st, e), fs)
     \<and> (st = LoadJson \<or> st = ParseItems \<or> st = NoItems)"
proof -
  have load_fails: "?thesis" if "load_json sys fs in_json = Inl e" for e
    using that by (simp add: main_def)
  from assms show ?thesis
  proof (elim disjE exE conjE)
    assume "fs in_json = None"
    then have "load_json sys fs in_json = Inl FileNotFoundError"
      by (simp add: load_json_def)
    then show ?thesis by (rule load_fails)
  next
    fix data
    assume "fs in_json = Some data" "utf8_decode sys data = None"
    then have "load_json sys fs in_json = Inl SystemExit"
      by (simp add: load_json_def)
    then show ?thesis by (rule load_fails)
  next
    fix data decoded
    assume "fs in_json = Some data" "utf8_decode sys data = Some decoded"
      "json_loads sys decoded = None"
    then have "load_json sys fs in_json = Inl SystemExit"
      by (simp add: load_json_def)
    then show ?thesis by (rule load_fails)
  next
    fix doc e
    assume "load_json sys fs in_json = Inr doc" "parse_items doc = Inl e"
    then show ?thesis by (simp add: main_def)
  next
    fix doc items
    assume "load_json sys fs in_json = Inr doc" "parse_items doc = Inr items"
      "new_rows L items = Inr []"
    then show ?thesis by (simp add: main_def)
  qed
qed

theorem fatal_input_leaves_ledger_witness:
  "main sample_io sample_lib [str ''flaky_from_testomat.py'', str ''in.json'', str ''out/ledger.csv'']
     sample_files = (Some (NoItems, SystemExit), sample_files)
   \<and> sample_files (str ''out/ledger.csv'') = Some ''run_at,run_id,title''"
proof -
  have l: "load_json sample_io sample_files (str ''in.json'') = Inr (JArr [])"
    by (simp add: load_json_def sample_io_def sample_files_def str_def)
  have p: "parse_items (JArr []) = Inr []" by (simp add: parse_items_def)
  have n: "new_rows sample_lib [] = Inr []" by simp
  have "\<exists>doc items. load_json sample_io sample_files (str ''in.json'') = Inr doc
      \<and> parse_items doc = Inr items \<and> new_rows sample_lib items = Inr []"
    using l p n by blast
  then have "\<exists>st e. main sample_io sample_lib
       [str ''flaky_from_testomat.py'', str ''in.json'', str ''out/ledger.csv''] sample_files
       = (Some (st, e), sample_files) \<and> (st = LoadJson \<or> st = ParseItems \<or> st = NoItems)"
    by (intro fatal_input_leaves_ledger) blast
  moreover have "main sample_io sample_lib
       [str ''flaky_from_testomat.py'', str ''in.json'', str ''out/ledger.csv''] sample_files
       = (Some (NoItems, SystemExit), sample_files)"
    by (simp add: main_def l p)
  ultimately show ?thesis by (simp add: sample_files_def str_def)
qed

subsection \<open>C9: the shape of the derived cells\<close>

text \<open>
  Claim C9. The record at position \<open>k\<close> (from 0) of its title's chronological order is
  the \<open>n\<close>-th with \<open>n = k + 1\<close>; after scoring, its \<open>trend_last5\<close> has exactly
  \<open>min 5 n\<close> code points, so it is never empty, and its \<open>is_flaky\<close> is \<open>"yes"\<close> or
  \<open>"no"\<close>.
\<close>

theorem trend_and_verdict_shape:
  assumes "compute_trend_and_flaky L rows = Inr out"
    and "sort_by_title_time L rows = Inr s"
    and "k < length (title_group t s)"
  shows "source_fields (title_group t out ! k) = source_fields (title_group t s ! k)
     \<and> length (trend_last5 (title_group t out ! k)) = min 5 (k + 1)
     \<and> trend_last5 (title_group t out ! k) \<noteq> []
     \<and> (is_flaky (title_group t out ! k) = str ''yes''
          \<or> is_flaky (title_group t out ! k) = str ''no'')"
proof -
  have l: "length (title_group t out) = length (title_group t s)"
    using assms(1,2) by (rule engine_group_length)
  have sr: "score_row L (take k (title_group t out)) (title_group t s ! k) = Inr (title_group t out ! k)"
    using assms by (rule engine_scores_each)
  have n: "length (trend_last5 (title_group t out ! k)) = min 5 (k + 1)"
    using score_row_trend_length [OF sr] assms(3) l by simp
  then have "trend_last5 (title_group t out ! k) \<noteq> []" by auto
  then show ?thesis
    using n score_row_source [OF sr] score_row_is_flaky [OF sr] by simp
qed

theorem trend_and_verdict_shape_witness:
  "compute_trend_and_flaky sample_lib six_runs_scenario = Inr six_runs_scored
   \<and> source_fields (six_runs_scored ! 5) = source_fields (six_runs_scenario ! 5)
   \<and> length (trend_last5 (six_runs_scored ! 5)) = min 5 (5 + 1)
   \<and> trend_last5 (six_runs_scored ! 5) = [10060, 9989, 9197, 9989, 9989]
   \<and> is_flaky (six_runs_scored ! 5) = str ''no''"
proof -
  have k: "5 < length (title_group (str ''T'') six_runs_scenario)"
    by (simp add: six_runs_scenario_def title_group_def ledger_row_def)
  have a: "title_group (str ''T'') six_runs_scored ! 5 = six_runs_scored ! 5"
    by (simp add: six_runs_scored_def title_group_def ledger_row_def)
  have b: "title_group (str ''T'') six_runs_scenario ! 5 = six_runs_scenario ! 5"
    by (simp add: six_runs_scenario_def title_group_def ledger_row_def)
  have "source_fields (six_runs_scored ! 5) = source_fields (six_runs_scenario ! 5)
     \<and> length (trend_last5 (six_runs_scored ! 5)) = min 5 (5 + 1)"
    using trend_and_verdict_shape [OF six_runs_run six_runs_order k] unfolding a b by blast
  then show ?thesis
    using six_runs_run by (simp add: six_runs_scored_def)
qed

subsection \<open>C10: the duration window\<close>

text \<open>
  Claim C10. The duration list is taken from the last four history records, known
  duration or not: with four recent records, older ones change nothing; the list holds
  the known durations among the four and the current record's; and when these are fewer
  than three, R4 does not fire and adds nothing to the score, whatever the older
  records hold. In the witness the three older durations 100, 100, 600 would have
  fired R4 together with the current 100, and are never read.
\<close>

theorem dur_list_window:
  assumes "length recent = 4"
  shows "dur_list L (older @ recent) row = dur_list L recent row
    \<and> (\<forall>ds. dur_list L (older @ recent) row = Inr ds \<longrightarrow>
          length ds = length (filter (\<lambda>r. duration_ms r \<noteq> []) recent)
                      + (if duration_ms row = [] then 0 else 1))
    \<and> (\<forall>syms score rs. rules L (older @ recent) row = Inr (syms, score, rs) \<longrightarrow>
          length (filter (\<lambda>r. duration_ms r \<noteq> []) recent)
            + (if duration_ms row = [] then 0 else 1) < 3 \<longrightarrow>
          r4_reason \<notin> set rs \<and> score \<le> (if r1_fires syms then 60 else 20))"
proof -
  have w: "last_n 4 (older @ recent) = recent"
    using assms by (rule last_n_append)
  have w': "last_n 4 recent = recent"
    using assms last_n_append [of recent 4 "[]"] by simp
  have a: "dur_list L (older @ recent) row = dur_list L recent row"
    by (simp add: dur_list_def w w')
  have b: "length ds = length (filter (\<lambda>r. duration_ms r \<noteq> []) recent)
                      + (if duration_ms row = [] then 0 else 1)"
    if "dur_list L (older @ recent) row = Inr ds" for ds
    using dur_list_length [OF that] by (simp add: w)
  have c: "r4_reason \<notin> set rs \<and> score \<le> (if r1_fires syms then 60 else 20)"
    if r: "rules L (older @ recent) row = Inr (syms, score, rs)"
    and few: "length (filter (\<lambda>r. duration_ms r \<noteq> []) recent)
            + (if duration_ms row = [] then 0 else 1) < 3"
    for syms score rs
  proof -
    from rules_parts [OF r] obtain ds r3 r4 where
      d: "dur_list L (older @ recent) row = Inr ds" and r4: "r4_fires L ds = Inr r4"
      and sc: "score = (if r1_fires syms then 40 else 0) + (if r3 then 20 else 0) + (if r4 then 20 else 0)"
      and rs: "rs = (if r1_fires syms then [r1_reason] else []) @ (if r3 then [r3_reason] else [])
              @ (if r4 then [r4_reason] else [])"
      by blast
    have "length ds < 3" using b [OF d] few by simp
    then have "\<not> r4" using r4 r4_needs_three [of ds L] by simp
    then show ?thesis using sc rs reasons_distinct by auto
  qed
  show ?thesis using a b c by blast
qed

theorem dur_list_window_witness:
  "length recent_unknown = 4
   \<and> dur_list sample_lib (old_durations @ recent_unknown) current_run = Inr [100]
   \<and> dur_list sample_lib recent_unknown current_run = Inr [100]
   \<and> rules sample_lib (old_durations @ recent_unknown) current_run
       = Inr ([pass_sym, pass_sym, pass_sym, pass_sym, pass_sym], 0, [])
   \<and> exact_unstable [100, 100, 600, 100] = Inr True"
proof -
  have l: "length recent_unknown = 4" by (simp add: recent_unknown_def)
  have d: "dur_list sample_lib recent_unknown current_run = Inr [100]"
    by (simp add: recent_unknown_def current_run_def run_defs)
  have r: "rules sample_lib (old_durations @ recent_unknown) current_run
       = Inr ([pass_sym, pass_sym, pass_sym, pass_sym, pass_sym], 0, [])"
    by (simp add: old_durations_def recent_unknown_def current_run_def run_defs)
  have u: "exact_unstable [100, 100, 600, 100] = Inr True"
    by (simp add: exact_unstable_def median_exact_def)
  from dur_list_window [OF l, of sample_lib old_durations current_run]
  have "dur_list sample_lib (old_durations @ recent_unknown) current_run
      = dur_list sample_lib recent_unknown current_run"
    by blast
  then show ?thesis using l d r u by simp
qed

end
